theory Spec2Isabelle
  imports Main
begin

section \<open>Python built-ins used by the scrapers\<close>

text \<open>
  Cell and attribute texts are Python \<open>str\<close> values; they are modelled as \<open>string\<close>,
  a character being a code point below 256. \<open>isspace\<close> is \<open>str.isspace\<close> on one
  such character: tab, line feed, vertical tab, form feed, carriage return, the four
  separators \<open>0x1C\<close> to \<open>0x1F\<close>, the space, the next-line control \<open>0x85\<close> and the
  no-break space \<open>0xA0\<close>.
\<close>

definition isspace :: "char \<Rightarrow> bool" where
  "isspace c = (of_char c \<in> set [9, 10, 11, 12, 13, 28, 29, 30, 31, 32, 133, 160 :: nat])"

definition isdigit :: "char \<Rightarrow> bool" where
  "isdigit c = (48 \<le> (of_char c :: nat) \<and> (of_char c :: nat) \<le> 57)"

definition digit_val :: "char \<Rightarrow> nat" where
  "digit_val c = of_char c - 48"

text \<open>\<open>s.strip()\<close>: leading and trailing whitespace removed.\<close>

definition strip :: "string \<Rightarrow> string" where
  "strip s = rev (dropWhile isspace (rev (dropWhile isspace s)))"

text \<open>\<open>s.split()\<close>: the maximal runs of non-whitespace characters, in order.\<close>

fun split_acc :: "string \<Rightarrow> string \<Rightarrow> string list" where
  "split_acc cur [] = (if cur = [] then [] else [cur])"
| "split_acc cur (c # cs) =
     (if isspace c then (if cur = [] then split_acc [] cs else cur # split_acc [] cs)
      else split_acc (cur @ [c]) cs)"

definition split :: "string \<Rightarrow> string list" where
  "split s = split_acc [] s"

text \<open>\<open>s.startswith(p)\<close> and \<open>sub in s\<close>.\<close>

fun startswith :: "string \<Rightarrow> string \<Rightarrow> bool" where
  "startswith s [] = True"
| "startswith [] (p # ps) = False"
| "startswith (c # cs) (p # ps) = (c = p \<and> startswith cs ps)"

fun contains :: "string \<Rightarrow> string \<Rightarrow> bool" where
  "contains sub [] = (sub = [])"
| "contains sub (c # cs) = (startswith (c # cs) sub \<or> contains sub cs)"

text \<open>
  \<open>int(s)\<close> on a string. The whitespace that \<open>int\<close> ignores around the number is
  not that of \<open>strip\<close>: it is tab, line feed, vertical tab, form feed, carriage
  return and space, and the two whitespace characters above \<open>0x7F\<close>; the separators
  \<open>0x1C\<close> to \<open>0x1F\<close> are not ignored. Then come an optional sign and decimal digits
  in which single underscores may separate digits. A number of more than 4300 digits
  (the default of \<open>sys.int_max_str_digits\<close>) is refused. \<open>None\<close> is \<open>ValueError\<close>.
\<close>

definition int_space :: "char \<Rightarrow> bool" where
  "int_space c = (of_char c \<in> set [9, 10, 11, 12, 13, 32, 133, 160 :: nat])"

fun int_digits :: "nat \<Rightarrow> bool \<Rightarrow> string \<Rightarrow> nat option" where
  "int_digits acc prev [] = (if prev then Some acc else None)"
| "int_digits acc prev (c # cs) =
     (if isdigit c then int_digits (10 * acc + digit_val c) True cs
      else if c = CHR ''_'' \<and> prev \<and> cs \<noteq> [] then int_digits acc False cs
      else None)"

definition int_body :: "string \<Rightarrow> nat option" where
  "int_body ds =
     (if length (filter isdigit ds) > 4300 then None else int_digits 0 False ds)"

definition py_int :: "string \<Rightarrow> int option" where
  "py_int s =
     (case rev (dropWhile int_space (rev (dropWhile int_space s))) of
        [] \<Rightarrow> None
      | c # cs \<Rightarrow>
          if c = CHR ''-'' then map_option (\<lambda>n. - int n) (int_body cs)
          else if c = CHR ''+'' then map_option int (int_body cs)
          else map_option int (int_body (c # cs)))"

subsection \<open>\<open>datetime.strptime\<close> for the two formats the scraper uses\<close>

text \<open>
  Only the calendar fields are parsed by the formats \<open>%d-%m-%Y\<close> and \<open>%Y-%m-%d\<close>;
  the time fields of the resulting \<open>datetime\<close> are zero, so comparison is the
  lexicographic order on year, month, day.
\<close>

record datetime =
  year :: nat
  month :: nat
  day :: nat

definition datetime_le :: "datetime \<Rightarrow> datetime \<Rightarrow> bool" where
  "datetime_le a b =
     (year a < year b \<or>
      (year a = year b \<and> (month a < month b \<or> (month a = month b \<and> day a \<le> day b))))"

definition is_leap :: "nat \<Rightarrow> bool" where
  "is_leap y = (y mod 4 = 0 \<and> (y mod 100 \<noteq> 0 \<or> y mod 400 = 0))"

definition days_in_month :: "nat \<Rightarrow> nat \<Rightarrow> nat" where
  "days_in_month y m =
     (if m = 2 then (if is_leap y then 29 else 28)
      else if m = 4 \<or> m = 6 \<or> m = 9 \<or> m = 11 then 30 else 31)"

text \<open>The \<open>datetime\<close> constructor: \<open>None\<close> is its \<open>ValueError\<close>.\<close>

definition make_datetime :: "nat \<Rightarrow> nat \<Rightarrow> nat \<Rightarrow> datetime option" where
  "make_datetime y m d =
     (if 1 \<le> y \<and> y \<le> 9999 \<and> 1 \<le> m \<and> m \<le> 12 \<and> 1 \<le> d \<and> d \<le> days_in_month y m
      then Some \<lparr>year = y, month = m, day = d\<rparr> else None)"

text \<open>
  The directives, as the regular expressions of \<open>_strptime\<close>:
  \<open>%d\<close> is \<open>3[0-1]|[1-2]\d|0[1-9]|[1-9]| [1-9]\<close>,
  \<open>%m\<close> is \<open>1[0-2]|0[1-9]|[1-9]\<close>, \<open>%Y\<close> is \<open>\d\d\d\d\<close>.
\<close>

definition nonzero_digit :: "char \<Rightarrow> bool" where
  "nonzero_digit c = (isdigit c \<and> c \<noteq> CHR ''0'')"

definition parse_d :: "string \<Rightarrow> nat option" where
  "parse_d s =
     (case s of
        [a] \<Rightarrow> if nonzero_digit a then Some (digit_val a) else None
      | [a, b] \<Rightarrow>
          if (a = CHR ''3'' \<and> (b = CHR ''0'' \<or> b = CHR ''1''))
             \<or> ((a = CHR ''1'' \<or> a = CHR ''2'') \<and> isdigit b)
             \<or> (a = CHR ''0'' \<and> nonzero_digit b)
          then Some (10 * digit_val a + digit_val b)
          else if a = CHR '' '' \<and> nonzero_digit b then Some (digit_val b)
          else None
      | _ \<Rightarrow> None)"

definition parse_m :: "string \<Rightarrow> nat option" where
  "parse_m s =
     (case s of
        [a] \<Rightarrow> if nonzero_digit a then Some (digit_val a) else None
      | [a, b] \<Rightarrow>
          if (a = CHR ''1'' \<and> (b = CHR ''0'' \<or> b = CHR ''1'' \<or> b = CHR ''2''))
             \<or> (a = CHR ''0'' \<and> nonzero_digit b)
          then Some (10 * digit_val a + digit_val b)
          else None
      | _ \<Rightarrow> None)"

definition parse_Y :: "string \<Rightarrow> nat option" where
  "parse_Y s =
     (case s of
        [a, b, c, d] \<Rightarrow>
          if isdigit a \<and> isdigit b \<and> isdigit c \<and> isdigit d
          then Some (1000 * digit_val a + 100 * digit_val b + 10 * digit_val c + digit_val d)
          else None
      | _ \<Rightarrow> None)"

text \<open>The fields between the literal dashes of the format.\<close>

fun split_on :: "char \<Rightarrow> string \<Rightarrow> string \<Rightarrow> string list" where
  "split_on sep cur [] = [cur]"
| "split_on sep cur (c # cs) =
     (if c = sep then cur # split_on sep [] cs else split_on sep (cur @ [c]) cs)"

text \<open>\<open>datetime.strptime(s, "%d-%m-%Y")\<close>; \<open>None\<close> is \<open>ValueError\<close>.\<close>

definition strptime_dmY :: "string \<Rightarrow> datetime option" where
  "strptime_dmY s =
     (case split_on (CHR ''-'') [] s of
        [ds, ms, ys] \<Rightarrow>
          (case (parse_d ds, parse_m ms, parse_Y ys) of
             (Some d, Some m, Some y) \<Rightarrow> make_datetime y m d
           | _ \<Rightarrow> None)
      | _ \<Rightarrow> None)"

text \<open>\<open>datetime.strptime(s, "%Y-%m-%d")\<close>.\<close>

definition strptime_Ymd :: "string \<Rightarrow> datetime option" where
  "strptime_Ymd s =
     (case split_on (CHR ''-'') [] s of
        [ys, ms, ds] \<Rightarrow>
          (case (parse_Y ys, parse_m ms, parse_d ds) of
             (Some y, Some m, Some d) \<Rightarrow> make_datetime y m d
           | _ \<Rightarrow> None)
      | _ \<Rightarrow> None)"

section \<open>The enhanced scraper: date range check\<close>

text \<open>
  \<open>EnhancedTransactionIDScraper.is_date_in_range\<close>. Every exception of the body
  (\<open>IndexError\<close> of \<open>split()[0]\<close>, \<open>ValueError\<close> of \<open>strptime\<close>) is caught and gives
  \<open>False\<close>. The row date is parsed before the two bounds.
\<close>

definition is_date_in_range :: "string \<Rightarrow> string \<Rightarrow> string \<Rightarrow> bool" where
  "is_date_in_range date_text start_date end_date =
     (case split date_text of
        [] \<Rightarrow> False
      | tok # _ \<Rightarrow>
          (case strptime_dmY tok of
             None \<Rightarrow> False
           | Some date_obj \<Rightarrow>
               (case strptime_Ymd start_date of
                  None \<Rightarrow> False
                | Some start_obj \<Rightarrow>
                    (case strptime_Ymd end_date of
                       None \<Rightarrow> False
                     | Some end_obj \<Rightarrow>
                         datetime_le start_obj date_obj \<and> datetime_le date_obj end_obj))))"

section \<open>The page driver\<close>

text \<open>
  The scrapers drive one browser session through Selenium. The session is a
  parameter: a record of the operations the source calls, over a browser state
  \<open>'s\<close> and element references \<open>'e\<close>. A read (\<open>find_element\<close>, \<open>.text\<close>,
  \<open>get_attribute\<close>) returns its value or the exception it raises, and leaves the
  browser as it is. An interaction (\<open>click\<close>, \<open>execute_script\<close>, a wait,
  \<open>get\<close>, \<open>Select(...).select_by_value\<close>, \<open>clear\<close>, \<open>send_keys\<close>) returns the exception it raises, if any, together with the browser state
  it leaves behind. \<open>time.sleep\<close> and log lines below error level are not
  modelled.
\<close>

datatype exn =
    NoSuchElementException
  | TimeoutException
  | ElementClickInterceptedException
  | StaleElementReferenceException
  | WebDriverException
  | ValueError
  | IndexError
  | TypeError
  | AttributeError
  | JSONDecodeError

datatype By = CSS_SELECTOR | TAG_NAME | XPATH | ID | CLASS_NAME

datatype condition =
    presence_of_element_located By string
  | element_to_be_clickable By string

record ('s, 'e) driver =
  find_element :: "By \<Rightarrow> string \<Rightarrow> 's \<Rightarrow> exn + 'e"
  find_elements :: "By \<Rightarrow> string \<Rightarrow> 's \<Rightarrow> exn + 'e list"
  elem_find_element :: "'e \<Rightarrow> By \<Rightarrow> string \<Rightarrow> 's \<Rightarrow> exn + 'e"
  elem_find_elements :: "'e \<Rightarrow> By \<Rightarrow> string \<Rightarrow> 's \<Rightarrow> exn + 'e list"
  elem_text :: "'e \<Rightarrow> 's \<Rightarrow> exn + string"
  get_attribute :: "'e \<Rightarrow> string \<Rightarrow> 's \<Rightarrow> exn + string option"
  click :: "'e \<Rightarrow> 's \<Rightarrow> exn option \<times> 's"
  execute_script :: "string \<Rightarrow> 'e option \<Rightarrow> 's \<Rightarrow> exn option \<times> 's"
  move_to_element_click_perform :: "'e \<Rightarrow> 's \<Rightarrow> exn option \<times> 's"
  wait_until :: "nat \<Rightarrow> condition \<Rightarrow> 's \<Rightarrow> (exn + 'e) \<times> 's"
  wait_until_invisible :: "nat \<Rightarrow> By \<Rightarrow> string \<Rightarrow> 's \<Rightarrow> exn option \<times> 's"
  driver_get :: "string \<Rightarrow> 's \<Rightarrow> exn option \<times> 's"
  select_by_value :: "'e \<Rightarrow> string \<Rightarrow> 's \<Rightarrow> exn option \<times> 's"
  clear :: "'e \<Rightarrow> 's \<Rightarrow> exn option \<times> 's"
  send_keys :: "'e \<Rightarrow> string \<Rightarrow> 's \<Rightarrow> exn option \<times> 's"

text \<open>\<open>Config.WAIT_TIMEOUT\<close>, and the 15 seconds the other two scrapers pass.\<close>

definition WAIT_TIMEOUT :: nat where
  "WAIT_TIMEOUT = 15"


text \<open>The selectors of the collected-payments grid.\<close>

definition table_rows_css :: string where
  "table_rows_css = ''.payments-collected-table tbody tr''"

definition active_link_css :: string where
  "active_link_css = ''.pagination .page-item.active .page-link''"

definition page_links_css :: string where
  "page_links_css = ''.pagination .page-item .page-link''"

definition last_item_css :: string where
  "last_item_css = ''.pagination .page-item:last-child''"

definition next_button_css :: string where
  "next_button_css = ''.pagination .page-item:last-child button''"

definition scroll_into_view_js :: string where
  "scroll_into_view_js = ''arguments[0].scrollIntoView(true);''"

definition click_js :: string where
  "click_js = ''arguments[0].click();''"

definition scroll_bottom_js :: string where
  "scroll_bottom_js = ''window.scrollTo(0, document.body.scrollHeight);''"

section \<open>Pagination state\<close>

record pagination_info =
  current_page :: int
  total_pages :: int
  has_next :: bool

definition fallback_info :: pagination_info where
  "fallback_info = \<lparr>current_page = 1, total_pages = 1, has_next = False\<rparr>"

text \<open>
  The loop over the page links: a link whose text is not a number is skipped
  (\<open>except ValueError: continue\<close>); any other exception leaves the loop.
\<close>

fun max_page_number ::
  "('s, 'e) driver \<Rightarrow> 's \<Rightarrow> 'e list \<Rightarrow> int \<Rightarrow> exn + int" where
  "max_page_number drv s [] tot = Inr tot"
| "max_page_number drv s (link # links) tot =
     (case elem_text drv link s of
        Inl e \<Rightarrow> if e = ValueError then max_page_number drv s links tot else Inl e
      | Inr t \<Rightarrow>
          (case py_int t of
             None \<Rightarrow> max_page_number drv s links tot
           | Some page_num \<Rightarrow> max_page_number drv s links (max tot page_num)))"

text \<open>
  \<open>has_next = len(next_buttons) > 0 and "disabled" not in
  next_buttons[0].get_attribute("class")\<close>; a missing class attribute is \<open>None\<close>
  and \<open>in\<close> raises \<open>TypeError\<close>.
\<close>

definition next_available :: "('s, 'e) driver \<Rightarrow> 's \<Rightarrow> 'e list \<Rightarrow> exn + bool" where
  "next_available drv s next_buttons =
     (case next_buttons of
        [] \<Rightarrow> Inr False
      | b # _ \<Rightarrow>
          (case get_attribute drv b ''class'' s of
             Inl e \<Rightarrow> Inl e
           | Inr None \<Rightarrow> Inl TypeError
           | Inr (Some c) \<Rightarrow> Inr (\<not> contains ''disabled'' c)))"

text \<open>
  \<open>CinetPayScraper.get_pagination_info\<close> and
  \<open>ImprovedCinetPayScraper.get_pagination_info\<close>: the two bodies are the same text.
  Every exception gives the fallback value.
\<close>

definition get_pagination_info :: "('s, 'e) driver \<Rightarrow> 's \<Rightarrow> pagination_info" where
  "get_pagination_info drv s =
     (case find_element drv CSS_SELECTOR active_link_css s of
        Inl _ \<Rightarrow> fallback_info
      | Inr current_page_element \<Rightarrow>
     (case elem_text drv current_page_element s of
        Inl _ \<Rightarrow> fallback_info
      | Inr t \<Rightarrow>
     (case py_int t of
        None \<Rightarrow> fallback_info
      | Some cur \<Rightarrow>
     (case find_elements drv CSS_SELECTOR page_links_css s of
        Inl _ \<Rightarrow> fallback_info
      | Inr page_links \<Rightarrow>
     (case max_page_number drv s page_links 1 of
        Inl _ \<Rightarrow> fallback_info
      | Inr tot \<Rightarrow>
     (case find_elements drv CSS_SELECTOR last_item_css s of
        Inl _ \<Rightarrow> fallback_info
      | Inr next_buttons \<Rightarrow>
     (case next_available drv s next_buttons of
        Inl _ \<Rightarrow> fallback_info
      | Inr nxt \<Rightarrow>
          \<lparr>current_page = cur, total_pages = tot, has_next = nxt\<rparr>)))))))"

text \<open>
  \<open>EnhancedTransactionIDScraper.get_pagination_info\<close>: the page number defaults to 1
  when the active indicator is missing or not a number, and the total starts from the
  page number.
\<close>

definition enhanced_current_page :: "('s, 'e) driver \<Rightarrow> 's \<Rightarrow> 'e list \<Rightarrow> exn + int" where
  "enhanced_current_page drv s current_page_elements =
     (case current_page_elements of
        [] \<Rightarrow> Inr 1
      | el # _ \<Rightarrow>
          (case elem_text drv el s of
             Inl e \<Rightarrow> if e = ValueError then Inr 1 else Inl e
           | Inr t \<Rightarrow> (case py_int (strip t) of None \<Rightarrow> Inr 1 | Some n \<Rightarrow> Inr n)))"

fun enhanced_max_page_number ::
  "('s, 'e) driver \<Rightarrow> 's \<Rightarrow> 'e list \<Rightarrow> int \<Rightarrow> exn + int" where
  "enhanced_max_page_number drv s [] tot = Inr tot"
| "enhanced_max_page_number drv s (link # links) tot =
     (case elem_text drv link s of
        Inl e \<Rightarrow> if e = ValueError then enhanced_max_page_number drv s links tot else Inl e
      | Inr t \<Rightarrow>
          (case py_int (strip t) of
             None \<Rightarrow> enhanced_max_page_number drv s links tot
           | Some page_num \<Rightarrow> enhanced_max_page_number drv s links (max tot page_num)))"

definition enhanced_get_pagination_info :: "('s, 'e) driver \<Rightarrow> 's \<Rightarrow> pagination_info" where
  "enhanced_get_pagination_info drv s =
     (case find_elements drv CSS_SELECTOR ''.pagination, nav[aria-label*='Pagination']'' s of
        Inl _ \<Rightarrow> fallback_info
      | Inr pagination \<Rightarrow>
          if pagination = [] then fallback_info
          else
     (case find_elements drv CSS_SELECTOR ''.page-item.active .page-link, .pagination .active'' s of
        Inl _ \<Rightarrow> fallback_info
      | Inr current_page_elements \<Rightarrow>
     (case enhanced_current_page drv s current_page_elements of
        Inl _ \<Rightarrow> fallback_info
      | Inr cur \<Rightarrow>
     (case find_elements drv CSS_SELECTOR ''.page-link, .pagination a'' s of
        Inl _ \<Rightarrow> fallback_info
      | Inr page_links \<Rightarrow>
     (case enhanced_max_page_number drv s page_links cur of
        Inl _ \<Rightarrow> fallback_info
      | Inr tot \<Rightarrow>
     (case find_elements drv CSS_SELECTOR
             ''.page-item:last-child .page-link, a[rel='next'], .pagination .next'' s of
        Inl _ \<Rightarrow> fallback_info
      | Inr next_buttons \<Rightarrow>
     (case next_available drv s next_buttons of
        Inl _ \<Rightarrow> fallback_info
      | Inr nxt \<Rightarrow>
          \<lparr>current_page = cur, total_pages = tot, has_next = nxt\<rparr>)))))))"

section \<open>Advancing to the next page\<close>

text \<open>
  The selector loop of \<open>go_to_next_page\<close>: the first selector that resolves wins;
  \<open>NoSuchElementException\<close> moves on to the next selector, any other exception
  leaves the loop. \<open>Inr None\<close> is the button still being \<open>None\<close> after the loop.
\<close>

fun resolve_next_button ::
  "('s, 'e) driver \<Rightarrow> string list \<Rightarrow> 's \<Rightarrow> exn + 'e option" where
  "resolve_next_button drv [] s = Inr None"
| "resolve_next_button drv (selector # selectors) s =
     (case find_element drv CSS_SELECTOR selector s of
        Inr b \<Rightarrow> Inr (Some b)
      | Inl e \<Rightarrow>
          if e = NoSuchElementException then resolve_next_button drv selectors s else Inl e)"

text \<open>
  \<open>"disabled" in parent.get_attribute("class")\<close> for the parent of the button
  (\<open>find_element(By.XPATH, "..")\<close>).
\<close>

definition parent_disabled :: "('s, 'e) driver \<Rightarrow> 'e \<Rightarrow> 's \<Rightarrow> exn + bool" where
  "parent_disabled drv next_button s =
     (case elem_find_element drv next_button XPATH ''..'' s of
        Inl e \<Rightarrow> Inl e
      | Inr parent_li \<Rightarrow>
          (case get_attribute drv parent_li ''class'' s of
             Inl e \<Rightarrow> Inl e
           | Inr None \<Rightarrow> Inl TypeError
           | Inr (Some c) \<Rightarrow> Inr (contains ''disabled'' c)))"

subsection \<open>\<open>CinetPayScraper\<close>\<close>

text \<open>
  \<open>CinetPayScraper.wait_for_table_load\<close>. Only a timeout of the loader wait is
  passed over; every other exception returns \<open>False\<close>. The branch on a first row that
  still reads "loading" only sleeps.
\<close>

definition wait_for_table_load :: "('s, 'e) driver \<Rightarrow> 's \<Rightarrow> bool \<times> 's" where
  "wait_for_table_load drv s =
     (case wait_until_invisible drv 3 ID ''loader'' s of
        (r, s1) \<Rightarrow>
          if r \<noteq> None \<and> r \<noteq> Some TimeoutException then (False, s1)
          else
            (case wait_until drv WAIT_TIMEOUT
                    (presence_of_element_located CSS_SELECTOR table_rows_css) s1 of
               (Inl _, s2) \<Rightarrow> (False, s2)
             | (Inr _, s2) \<Rightarrow>
                 (case find_elements drv CSS_SELECTOR table_rows_css s2 of
                    Inl _ \<Rightarrow> (False, s2)
                  | Inr [] \<Rightarrow> (False, s2)
                  | Inr (row # _) \<Rightarrow>
                      (case elem_text drv row s2 of
                         Inl _ \<Rightarrow> (False, s2)
                       | Inr _ \<Rightarrow> (True, s2)))))"

definition next_selectors :: "string list" where
  "next_selectors =
     [''.pagination .page-item:last-child button'',
      ''.pagination .page-item:last-child a'',
      ''a[rel='next']'',
      ''button[wire'' @ [CHR 0x5C] @ '':click*='nextPage']'']"

text \<open>
  \<open>CinetPayScraper.go_to_next_page\<close>: a native click, and a scripted click when the
  native one raises anything. The result of \<open>wait_for_table_load\<close> is not looked at.
\<close>

definition go_to_next_page :: "('s, 'e) driver \<Rightarrow> 's \<Rightarrow> bool \<times> 's" where
  "go_to_next_page drv s =
     (case resolve_next_button drv next_selectors s of
        Inl _ \<Rightarrow> (False, s)
      | Inr None \<Rightarrow> (False, s)
      | Inr (Some next_button) \<Rightarrow>
     (case parent_disabled drv next_button s of
        Inl _ \<Rightarrow> (False, s)
      | Inr True \<Rightarrow> (False, s)
      | Inr False \<Rightarrow>
     (case execute_script drv scroll_into_view_js (Some next_button) s of
        (Some _, s1) \<Rightarrow> (False, s1)
      | (None, s1) \<Rightarrow>
     (case click drv next_button s1 of
        (None, s2) \<Rightarrow> (True, snd (wait_for_table_load drv s2))
      | (Some _, s2) \<Rightarrow>
     (case execute_script drv click_js (Some next_button) s2 of
        (Some _, s3) \<Rightarrow> (False, s3)
      | (None, s3) \<Rightarrow> (True, snd (wait_for_table_load drv s3)))))))"

subsection \<open>\<open>ImprovedCinetPayScraper\<close>\<close>

text \<open>
  \<open>ImprovedCinetPayScraper.wait_for_table_load\<close>: both waits pass over a timeout
  and let any other exception through.
\<close>

definition improved_wait_for_table_load ::
  "('s, 'e) driver \<Rightarrow> 's \<Rightarrow> exn option \<times> 's" where
  "improved_wait_for_table_load drv s =
     (case wait_until_invisible drv 10 ID ''loader'' s of
        (r, s1) \<Rightarrow>
          if r \<noteq> None \<and> r \<noteq> Some TimeoutException then (r, s1)
          else
            (case wait_until drv 15
                    (presence_of_element_located CSS_SELECTOR table_rows_css) s1 of
               (Inl e, s2) \<Rightarrow> if e = TimeoutException then (None, s2) else (Some e, s2)
             | (Inr _, s2) \<Rightarrow> (None, s2)))"

text \<open>
  The click escalation of \<open>ImprovedCinetPayScraper.go_to_next_page\<close>, lines 261 to
  275. The result is the exception that leaves the block (caught by the enclosing
  handler), or whether the block went on (\<open>True\<close>) or returned \<open>False\<close> itself.
  Only \<open>ElementClickInterceptedException\<close> of the native click escalates; the two
  inner handlers are bare \<open>except:\<close>.
\<close>

definition click_escalation ::
  "('s, 'e) driver \<Rightarrow> 'e \<Rightarrow> 's \<Rightarrow> (exn + bool) \<times> 's" where
  "click_escalation drv next_button s =
     (case click drv next_button s of
        (None, s1) \<Rightarrow> (Inr True, s1)
      | (Some e, s1) \<Rightarrow>
          if e \<noteq> ElementClickInterceptedException then (Inl e, s1)
          else
            (case execute_script drv click_js (Some next_button) s1 of
               (None, s2) \<Rightarrow> (Inr True, s2)
             | (Some _, s2) \<Rightarrow>
                 (case move_to_element_click_perform drv next_button s2 of
                    (None, s3) \<Rightarrow> (Inr True, s3)
                  | (Some _, s3) \<Rightarrow> (Inr False, s3))))"

definition improved_go_to_next_page :: "('s, 'e) driver \<Rightarrow> 's \<Rightarrow> bool \<times> 's" where
  "improved_go_to_next_page drv s =
     (case execute_script drv scroll_bottom_js None s of
        (Some _, s1) \<Rightarrow> (False, s1)
      | (None, s1) \<Rightarrow>
     (case wait_until drv 15 (element_to_be_clickable CSS_SELECTOR next_button_css) s1 of
        (Inl _, s2) \<Rightarrow> (False, s2)
      | (Inr next_button, s2) \<Rightarrow>
     (case parent_disabled drv next_button s2 of
        Inl _ \<Rightarrow> (False, s2)
      | Inr True \<Rightarrow> (False, s2)
      | Inr False \<Rightarrow>
     (case click_escalation drv next_button s2 of
        (Inl _, s3) \<Rightarrow> (False, s3)
      | (Inr False, s3) \<Rightarrow> (False, s3)
      | (Inr True, s3) \<Rightarrow>
     (case improved_wait_for_table_load drv s3 of
        (Some _, s4) \<Rightarrow> (False, s4)
      | (None, s4) \<Rightarrow> (True, s4))))))"

subsection \<open>\<open>EnhancedTransactionIDScraper\<close>\<close>

definition enhanced_next_selectors :: "string list" where
  "enhanced_next_selectors =
     [''.pagination .page-item:last-child .page-link'',
      ''a[rel='next']'',
      ''.pagination .next .page-link'',
      ''button[wire'' @ [CHR 0x5C] @ '':click*='nextPage']'']"

definition enhanced_go_to_next_page :: "('s, 'e) driver \<Rightarrow> 's \<Rightarrow> bool \<times> 's" where
  "enhanced_go_to_next_page drv s =
     (case resolve_next_button drv enhanced_next_selectors s of
        Inl _ \<Rightarrow> (False, s)
      | Inr None \<Rightarrow> (False, s)
      | Inr (Some next_button) \<Rightarrow>
     (case parent_disabled drv next_button s of
        Inl _ \<Rightarrow> (False, s)
      | Inr True \<Rightarrow> (False, s)
      | Inr False \<Rightarrow>
     (case execute_script drv scroll_into_view_js (Some next_button) s of
        (Some _, s1) \<Rightarrow> (False, s1)
      | (None, s1) \<Rightarrow>
     (case click drv next_button s1 of
        (None, s2) \<Rightarrow> (True, s2)
      | (Some _, s2) \<Rightarrow>
     (case execute_script drv click_js (Some next_button) s2 of
        (Some _, s3) \<Rightarrow> (False, s3)
      | (None, s3) \<Rightarrow> (True, s3))))))"

section \<open>Row extraction\<close>

subsection \<open>\<open>CinetPayScraper.extract_table_data\<close>\<close>

text \<open>
  The value \<open>json.loads\<close> returns. An object is the list of its members; \<open>dict.get\<close>
  looks a key up in it.
\<close>

datatype json =
    JObject "(string \<times> json) list"
  | JArray "json list"
  | JString string
  | JNumber int
  | JBool bool
  | JNull

definition dict_get :: "(string \<times> json) list \<Rightarrow> string \<Rightarrow> json \<Rightarrow> json" where
  "dict_get d k dflt = (case map_of d k of None \<Rightarrow> dflt | Some v \<Rightarrow> v)"

text \<open>
  A transaction dictionary: the five base keys, and the keys that \<open>update\<close> adds
  from the payload, in the order of the source (empty when nothing was merged).
\<close>

record transaction =
  date :: string
  transaction_id :: string
  phone_number :: string
  amount :: string
  status :: string
  payload_fields :: "(string \<times> json) list"

definition payload_update ::
  "(string \<times> json) list \<Rightarrow> string option \<Rightarrow> (string \<times> json) list" where
  "payload_update payment_data business_name =
     [(''payment_method'', dict_get payment_data ''payment_method'' (JString [])),
      (''currency'', dict_get payment_data ''cpm_currency'' (JString [])),
      (''error_message'', dict_get payment_data ''cpm_error_message'' (JString [])),
      (''business_id'', dict_get payment_data ''cpm_site_id'' (JString [])),
      (''business_name'', JString (case business_name of None \<Rightarrow> [] | Some n \<Rightarrow> n)),
      (''operator_id'', dict_get payment_data ''cpm_payid'' (JString [])),
      (''phone_prefix'', dict_get payment_data ''cpm_phone_prefixe'' (JString [])),
      (''designation'', dict_get payment_data ''cpm_designation'' (JString [])),
      (''payment_config'', dict_get payment_data ''cpm_payment_config'' (JString [])),
      (''notify_url'', dict_get payment_data ''notify_url'' (JString [])),
      (''custom_field'', dict_get payment_data ''custom_s3'' (JString []))]"

text \<open>
  The inner \<open>try\<close> of a row, lines 280 to 301. \<open>NoSuchElementException\<close> and
  \<open>json.JSONDecodeError\<close> leave the record as it is; any other exception goes on to
  the handler of the row. \<open>json.loads\<close> is a parameter (\<open>None\<close> is its
  \<open>JSONDecodeError\<close>); calling \<open>get\<close> on a value that is not an object raises
  \<open>AttributeError\<close>.
\<close>

definition payload_handler :: "exn \<Rightarrow> exn + (string \<times> json) list" where
  "payload_handler e =
     (if e = NoSuchElementException \<or> e = JSONDecodeError then Inr [] else Inl e)"

definition read_payload ::
  "(string \<Rightarrow> json option) \<Rightarrow> ('s, 'e) driver \<Rightarrow> 's \<Rightarrow> 'e \<Rightarrow> exn + (string \<times> json) list" where
  "read_payload json_loads drv s row =
     (case elem_find_element drv row CSS_SELECTOR ''.payment-action'' s of
        Inl e \<Rightarrow> payload_handler e
      | Inr action_link \<Rightarrow>
     (case get_attribute drv action_link ''data-json'' s of
        Inl e \<Rightarrow> payload_handler e
      | Inr data_json \<Rightarrow>
     (case get_attribute drv action_link ''data-business-name'' s of
        Inl e \<Rightarrow> payload_handler e
      | Inr business_name \<Rightarrow>
     (case data_json of
        None \<Rightarrow> Inr []
      | Some dj \<Rightarrow>
          if dj = [] then Inr []
          else
            (case json_loads dj of
               None \<Rightarrow> payload_handler JSONDecodeError
             | Some (JObject payment_data) \<Rightarrow> Inr (payload_update payment_data business_name)
             | Some _ \<Rightarrow> payload_handler AttributeError)))))"

text \<open>
  The body of the loop over the rows. \<open>Inl\<close> is an exception caught by the handler
  of the row (the row is skipped), \<open>Inr None\<close> a row that is passed over (fewer than
  five cells, or an empty identifier), \<open>Inr (Some t)\<close> the record that is appended.
\<close>

definition extract_row ::
  "(string \<Rightarrow> json option) \<Rightarrow> ('s, 'e) driver \<Rightarrow> 's \<Rightarrow> 'e \<Rightarrow> exn + transaction option" where
  "extract_row json_loads drv s row =
     (case elem_find_elements drv row TAG_NAME ''td'' s of
        Inl e \<Rightarrow> Inl e
      | Inr cells \<Rightarrow>
          if length cells \<ge> 5 then
     (case elem_text drv (cells ! 1) s of
        Inl e \<Rightarrow> Inl e
      | Inr t1 \<Rightarrow>
          if strip t1 = [] then Inr None
          else
     (case elem_text drv (cells ! 0) s of
        Inl e \<Rightarrow> Inl e
      | Inr t0 \<Rightarrow>
     (case elem_text drv (cells ! 2) s of
        Inl e \<Rightarrow> Inl e
      | Inr t2 \<Rightarrow>
     (case elem_text drv (cells ! 3) s of
        Inl e \<Rightarrow> Inl e
      | Inr t3 \<Rightarrow>
     (case elem_text drv (cells ! 4) s of
        Inl e \<Rightarrow> Inl e
      | Inr t4 \<Rightarrow>
     (case read_payload json_loads drv s row of
        Inl e \<Rightarrow> Inl e
      | Inr extra \<Rightarrow>
          Inr (Some \<lparr>date = strip t0, transaction_id = strip t1, phone_number = strip t2,
                     amount = strip t3, status = strip t4, payload_fields = extra\<rparr>)))))))
          else Inr None)"

fun extract_rows ::
  "(string \<Rightarrow> json option) \<Rightarrow> ('s, 'e) driver \<Rightarrow> 's \<Rightarrow> 'e list \<Rightarrow> transaction list" where
  "extract_rows json_loads drv s [] = []"
| "extract_rows json_loads drv s (row # rows) =
     (case extract_row json_loads drv s row of
        Inr (Some t) \<Rightarrow> t # extract_rows json_loads drv s rows
      | _ \<Rightarrow> extract_rows json_loads drv s rows)"

definition extract_table_data ::
  "(string \<Rightarrow> json option) \<Rightarrow> ('s, 'e) driver \<Rightarrow> 's \<Rightarrow> transaction list" where
  "extract_table_data json_loads drv s =
     (case find_elements drv CSS_SELECTOR table_rows_css s of
        Inl _ \<Rightarrow> []
      | Inr rows \<Rightarrow> extract_rows json_loads drv s rows)"

subsection \<open>\<open>ImprovedCinetPayScraper.extract_table_data\<close>\<close>

text \<open>
  The identifier cells are read directly. Each record is a dictionary with the single
  key \<open>transaction_id\<close> and is modelled by its value. There is no handler inside the
  loop: an exception of a cell gives the empty list for the whole page.
\<close>

fun improved_id_cells ::
  "('s, 'e) driver \<Rightarrow> 's \<Rightarrow> 'e list \<Rightarrow> string list \<Rightarrow> exn + string list" where
  "improved_id_cells drv s [] transaction_ids = Inr transaction_ids"
| "improved_id_cells drv s (cell # cells) transaction_ids =
     (case elem_text drv cell s of
        Inl e \<Rightarrow> Inl e
      | Inr t \<Rightarrow>
          improved_id_cells drv s cells
            (if strip t \<noteq> [] then transaction_ids @ [strip t] else transaction_ids))"

definition improved_extract_table_data :: "('s, 'e) driver \<Rightarrow> 's \<Rightarrow> string list" where
  "improved_extract_table_data drv s =
     (case find_elements drv CSS_SELECTOR
             ''.payments-collected-table tbody tr td:nth-child(2)'' s of
        Inl _ \<Rightarrow> []
      | Inr id_cells \<Rightarrow>
          (case improved_id_cells drv s id_cells [] of
             Inl _ \<Rightarrow> []
           | Inr transaction_ids \<Rightarrow> transaction_ids))"

subsection \<open>\<open>EnhancedTransactionIDScraper.extract_transaction_ids\<close>\<close>

text \<open>
  The body of the loop over the rows; \<open>date_filter\<close> is \<open>None\<close> or a pair of bounds.
  \<open>Inl\<close> is an exception caught by the handler of the row, \<open>Inr None\<close> a row that
  is passed over, \<open>Inr (Some i)\<close> the identifier that is appended.
\<close>

definition enhanced_row ::
  "('s, 'e) driver \<Rightarrow> 's \<Rightarrow> (string \<times> string) option \<Rightarrow> 'e \<Rightarrow> exn + string option" where
  "enhanced_row drv s date_filter row =
     (case elem_find_elements drv row TAG_NAME ''td'' s of
        Inl e \<Rightarrow> Inl e
      | Inr cells \<Rightarrow>
          if length cells > 2 then
     (case elem_text drv (cells ! 0) s of
        Inl e \<Rightarrow> Inl e
      | Inr t0 \<Rightarrow>
     (case elem_text drv (cells ! 2) s of
        Inl e \<Rightarrow> Inl e
      | Inr t2 \<Rightarrow>
          if strip t2 \<noteq> [] \<and> \<not> startswith (strip t2) ''Loading'' then
            (case date_filter of
               None \<Rightarrow> Inr (Some (strip t2))
             | Some (start_date, end_date) \<Rightarrow>
                 if \<not> is_date_in_range (strip t0) start_date end_date then Inr None
                 else Inr (Some (strip t2)))
          else Inr None))
          else Inr None)"

fun enhanced_rows ::
  "('s, 'e) driver \<Rightarrow> 's \<Rightarrow> (string \<times> string) option \<Rightarrow> 'e list \<Rightarrow> string list" where
  "enhanced_rows drv s date_filter [] = []"
| "enhanced_rows drv s date_filter (row # rows) =
     (case enhanced_row drv s date_filter row of
        Inr (Some i) \<Rightarrow> i # enhanced_rows drv s date_filter rows
      | _ \<Rightarrow> enhanced_rows drv s date_filter rows)"

definition extract_transaction_ids ::
  "('s, 'e) driver \<Rightarrow> (string \<times> string) option \<Rightarrow> 's \<Rightarrow> string list \<times> 's" where
  "extract_transaction_ids drv date_filter s =
     (case wait_until drv 15 (presence_of_element_located TAG_NAME ''table'') s of
        (Inl _, s1) \<Rightarrow> ([], s1)
      | (Inr _, s1) \<Rightarrow>
          (case find_elements drv CSS_SELECTOR ''table tbody tr'' s1 of
             Inl _ \<Rightarrow> ([], s1)
           | Inr rows \<Rightarrow> (enhanced_rows drv s1 date_filter rows, s1)))"

section \<open>The pagination loops\<close>

text \<open>
  \<open>if max_pages and page_count > max_pages\<close>: \<open>None\<close> and \<open>0\<close> are both false in
  Python, so neither bounds the loop.
\<close>

definition over_limit :: "int option \<Rightarrow> int \<Rightarrow> bool" where
  "over_limit max_pages page_count =
     (case max_pages of None \<Rightarrow> False | Some m \<Rightarrow> m \<noteq> 0 \<and> page_count > m)"

subsection \<open>\<open>CinetPayScraper.scrape_all_pages\<close>\<close>

text \<open>
  The \<open>while True\<close> loop, entered with the value of \<open>page_count\<close> before the
  increment at the top of the body. A loop that never leaves has no result
  (\<open>None\<close>).
\<close>

partial_function (option) scrape_all_pages_loop ::
  "(string \<Rightarrow> json option) \<Rightarrow> ('s, 'e) driver \<Rightarrow> int option \<Rightarrow> int \<Rightarrow> transaction list \<Rightarrow> 's
     \<Rightarrow> (transaction list \<times> 's) option" where
  "scrape_all_pages_loop json_loads drv max_pages page_count all_transactions s =
     (if over_limit max_pages (page_count + 1) then Some (all_transactions, s)
      else if \<not> has_next (get_pagination_info drv s)
      then Some (all_transactions @ extract_table_data json_loads drv s, s)
      else
        (case go_to_next_page drv s of
           (ok, s') \<Rightarrow>
             if ok
             then scrape_all_pages_loop json_loads drv max_pages (page_count + 1)
                    (all_transactions @ extract_table_data json_loads drv s) s'
             else Some (all_transactions @ extract_table_data json_loads drv s, s')))"

definition scrape_all_pages ::
  "(string \<Rightarrow> json option) \<Rightarrow> ('s, 'e) driver \<Rightarrow> int option \<Rightarrow> 's
     \<Rightarrow> (transaction list \<times> 's) option" where
  "scrape_all_pages json_loads drv max_pages s =
     scrape_all_pages_loop json_loads drv max_pages 0 [] s"

subsection \<open>The loop of \<open>main\<close> in \<open>scrape_transaction_ids.py\<close>\<close>

text \<open>
  Lines 64 to 90, on an \<open>ImprovedCinetPayScraper\<close>. The result carries the locals
  \<open>all_transaction_ids\<close> and \<open>page_count\<close> with which \<open>main\<close> goes on.
\<close>

partial_function (option) main_loop ::
  "('s, 'e) driver \<Rightarrow> int \<Rightarrow> string list \<Rightarrow> 's \<Rightarrow> (string list \<times> int \<times> 's) option" where
  "main_loop drv page_count all_transaction_ids s =
     (if \<not> has_next (get_pagination_info drv s) \<or> page_count + 1 \<ge> 100
      then Some (all_transaction_ids @ improved_extract_table_data drv s, page_count + 1, s)
      else
        (case improved_go_to_next_page drv s of
           (ok, s') \<Rightarrow>
             if ok
             then main_loop drv (page_count + 1)
                    (all_transaction_ids @ improved_extract_table_data drv s) s'
             else Some (all_transaction_ids @ improved_extract_table_data drv s,
                        page_count + 1, s')))"

section \<open>The multi-country run of \<open>ImprovedCinetPayScraper\<close>\<close>

text \<open>
  The state of a run: the browser, and the error lines that name a country
  (\<open>logger.error\<close> in \<open>scrape_single_country\<close> and \<open>scrape_all_countries\<close>), in
  the order they are written. Each line carries the country name and the exception.
\<close>

datatype log_entry =
    ErrorScraping string exn
  | FailedToScrape string exn

record 's session =
  browser :: 's
  errors :: "log_entry list"


text \<open>
  \<open>country_name.replace('_', ' ').title()\<close>. The names are the keys of
  \<open>COUNTRY_CODES\<close>, which are ASCII: \<open>title\<close> is \<open>str.title\<close> on ASCII strings (a
  letter is put in upper case after a character that is not a letter, in lower case
  after a letter), and leaves every other character as it is.
\<close>

definition ascii_lowercase :: string where
  "ascii_lowercase = ''abcdefghijklmnopqrstuvwxyz''"

definition ascii_uppercase :: string where
  "ascii_uppercase = ''ABCDEFGHIJKLMNOPQRSTUVWXYZ''"



definition upper :: "char \<Rightarrow> char" where
  "upper c =
     (case map_of (zip ascii_lowercase ascii_uppercase) c of None \<Rightarrow> c | Some u \<Rightarrow> u)"

definition lower :: "char \<Rightarrow> char" where
  "lower c =
     (case map_of (zip ascii_uppercase ascii_lowercase) c of None \<Rightarrow> c | Some l \<Rightarrow> l)"





text \<open>
  The filters of one call of \<open>set_filters\<close>: \<open>country_code\<close>, \<open>status\<close>,
  \<open>date_range\<close>, \<open>business\<close>. A string filter that is \<open>None\<close> or empty is false in
  Python and its step is left out.
\<close>

record filters =
  country_code :: "string option"
  filter_status :: "string option"
  date_range :: "(string \<times> string) option"
  business :: "string option"

definition when_set :: "string option \<Rightarrow> (string \<Rightarrow> 's \<Rightarrow> 's) \<Rightarrow> 's \<Rightarrow> 's" where
  "when_set v step s = (case v of None \<Rightarrow> s | Some x \<Rightarrow> if x = [] then s else step x s)"

definition business_css :: string where
  "business_css =
     ''select[wire'' @ [CHR 0x5C] @ '':model'' @ [CHR 0x5C] @ ''.defer='business']''"

definition country_css :: string where
  "country_css =
     ''select[wire'' @ [CHR 0x5C] @ '':model'' @ [CHR 0x5C] @ ''.defer='country']''"

definition status_css :: string where
  "status_css =
     ''select[wire'' @ [CHR 0x5C] @ '':model'' @ [CHR 0x5C] @ ''.lazy='status']''"

definition date_css :: string where
  "date_css =
     ''input[wire'' @ [CHR 0x5C] @ '':model'' @ [CHR 0x5C] @ ''.lazy='date']''"

text \<open>
  \<open>ImprovedCinetPayScraper.set_filters\<close>. Each step has a handler of its own for
  \<open>Exception\<close>, which logs a warning and goes on to the next step with the browser as
  the failed call left it.
\<close>

definition select_filter :: "('s, 'e) driver \<Rightarrow> string \<Rightarrow> string \<Rightarrow> 's \<Rightarrow> 's" where
  "select_filter drv css v s =
     (case wait_until drv 15 (element_to_be_clickable CSS_SELECTOR css) s of
        (Inl _, s1) \<Rightarrow> s1
      | (Inr select_element, s1) \<Rightarrow> snd (select_by_value drv select_element v s1))"

definition set_date_range :: "('s, 'e) driver \<Rightarrow> string \<times> string \<Rightarrow> 's \<Rightarrow> 's" where
  "set_date_range drv dr s =
     (case wait_until drv 15 (element_to_be_clickable CSS_SELECTOR date_css) s of
        (Inl _, s1) \<Rightarrow> s1
      | (Inr date_input, s1) \<Rightarrow>
          (case clear drv date_input s1 of
             (Some _, s2) \<Rightarrow> s2
           | (None, s2) \<Rightarrow> snd (send_keys drv date_input (fst dr @ '' - '' @ snd dr) s2)))"

definition apply_filters :: "('s, 'e) driver \<Rightarrow> 's \<Rightarrow> 's" where
  "apply_filters drv s =
     (case wait_until drv 15 (element_to_be_clickable CSS_SELECTOR ''button[type='submit']'') s of
        (Inl _, s1) \<Rightarrow> s1
      | (Inr validate_button, s1) \<Rightarrow>
          (case execute_script drv click_js (Some validate_button) s1 of
             (Some _, s2) \<Rightarrow> s2
           | (None, s2) \<Rightarrow> snd (improved_wait_for_table_load drv s2)))"

text \<open>
  The result is the exception that leaves \<open>set_filters\<close>, if any. Its outer handler
  logs and raises again, but no exception of a step reaches it.
\<close>

definition set_filters :: "('s, 'e) driver \<Rightarrow> filters \<Rightarrow> 's \<Rightarrow> exn option \<times> 's" where
  "set_filters drv flt s =
     (let s1 = when_set (business flt) (select_filter drv business_css) s;
          s2 = when_set (country_code flt) (select_filter drv country_css) s1;
          s3 = when_set (filter_status flt) (select_filter drv status_css) s2;
          s4 = (case date_range flt of None \<Rightarrow> s3 | Some dr \<Rightarrow> set_date_range drv dr s3)
      in (None, apply_filters drv s4))"

text \<open>
  In the two methods below the call of \<open>set_filters\<close> is a parameter, of the type of
  \<open>set_filters drv\<close>. With \<open>set_filters drv\<close> itself they are the methods of the
  scraper; with a call that raises, the handler of \<open>scrape_single_country\<close> is
  entered.
\<close>

type_synonym 's filter_call = "filters \<Rightarrow> 's \<Rightarrow> exn option \<times> 's"

text \<open>The \<open>while True\<close> loop of \<open>scrape_single_country\<close>.\<close>

partial_function (option) scrape_single_country_loop ::
  "('s, 'e) driver \<Rightarrow> int option \<Rightarrow> int \<Rightarrow> string list \<Rightarrow> 's \<Rightarrow> (string list \<times> 's) option" where
  "scrape_single_country_loop drv max_pages page_count all_transactions s =
     (if over_limit max_pages (page_count + 1) then Some (all_transactions, s)
      else if \<not> has_next (get_pagination_info drv s)
      then Some (all_transactions @ improved_extract_table_data drv s, s)
      else
        (case improved_go_to_next_page drv s of
           (ok, s') \<Rightarrow>
             if ok
             then scrape_single_country_loop drv max_pages (page_count + 1)
                    (all_transactions @ improved_extract_table_data drv s) s'
             else Some (all_transactions @ improved_extract_table_data drv s, s')))"

text \<open>
  \<open>scrape_single_country\<close>: an exception inside the \<open>try\<close> is logged with the
  country name, and the transactions collected so far are returned.
\<close>

definition scrape_single_country_with ::
  "'s filter_call \<Rightarrow> ('s, 'e) driver \<Rightarrow> string \<Rightarrow> filters \<Rightarrow> int option \<Rightarrow> 's session
     \<Rightarrow> (string list \<times> 's session) option" where
  "scrape_single_country_with call_set_filters drv country_name flt max_pages sess =
     (case call_set_filters flt (browser sess) of
        (Some e, s1) \<Rightarrow>
          Some ([], sess\<lparr>browser := s1, errors := errors sess @ [ErrorScraping country_name e]\<rparr>)
      | (None, s1) \<Rightarrow>
          (case scrape_single_country_loop drv max_pages 0 [] s1 of
             None \<Rightarrow> None
           | Some (all_transactions, s2) \<Rightarrow> Some (all_transactions, sess\<lparr>browser := s2\<rparr>)))"



text \<open>The two methods as the scraper has them.\<close>

definition scrape_single_country ::
  "('s, 'e) driver \<Rightarrow> string \<Rightarrow> filters \<Rightarrow> int option \<Rightarrow> 's session
     \<Rightarrow> (string list \<times> 's session) option" where
  "scrape_single_country drv = scrape_single_country_with (set_filters drv) drv"


section \<open>A scripted grid\<close>

text \<open>
  A driver over a fixed sequence of pages, on which the theorems below are
  instantiated. A page has its table rows (the cell texts of each row), the text of
  the active page link (if the page has a pagination bar), the texts of all page
  links, and the class of the last pagination item, which is the parent of the "next"
  button. The browser state is the list of pages from the one shown onwards, with the
  clicks and page loads made so far. A click that does not raise moves to the
  following page, if there is one. Each kind of click raises what the grid says. A
  page load that does not raise shows the first page; the grid says what each page
  load raises, from its number. The grid has no filter controls.
\<close>

record grid_page =
  page_rows :: "string list list"
  page_active :: "string option"
  page_links :: "string list"
  page_last_class :: string

datatype grid_event = NativeClick | ScriptedClick | SyntheticClick | PageLoad

record grid =
  pages :: "grid_page list"
  native_raises :: "exn option"
  scripted_raises :: "exn option"
  synthetic_raises :: "exn option"
  get_raises :: "nat \<Rightarrow> exn option"

type_synonym grid_state = "grid_page list \<times> grid_event list"

datatype elem =
    RowEl "string list"
  | CellEl string
  | LinkEl string
  | ItemEl string
  | ButtonEl string
  | OtherEl

definition empty_page :: grid_page where
  "empty_page = \<lparr>page_rows = [], page_active = None, page_links = [], page_last_class = []\<rparr>"

definition shown :: "grid_state \<Rightarrow> grid_page" where
  "shown s = (case fst s of [] \<Rightarrow> empty_page | p # _ \<Rightarrow> p)"

definition advance :: "grid_page list \<Rightarrow> grid_page list" where
  "advance ps = (case ps of p # q # rest \<Rightarrow> q # rest | _ \<Rightarrow> ps)"

definition do_click :: "grid_event \<Rightarrow> exn option \<Rightarrow> grid_state \<Rightarrow> exn option \<times> grid_state" where
  "do_click k r s =
     (r, (if r = None then advance (fst s) else fst s, snd s @ [k]))"

definition second_cells :: "string list list \<Rightarrow> string list" where
  "second_cells rs = concat (map (\<lambda>cs. case cs of a # b # _ \<Rightarrow> [b] | _ \<Rightarrow> []) rs)"

definition grid_find_element :: "By \<Rightarrow> string \<Rightarrow> grid_state \<Rightarrow> exn + elem" where
  "grid_find_element b sel s =
     (if sel = active_link_css then
        (case page_active (shown s) of
           None \<Rightarrow> Inl NoSuchElementException
         | Some t \<Rightarrow> Inr (LinkEl t))
      else if sel = next_button_css \<or> sel = ''.pagination .page-item:last-child .page-link'' then
        (if page_links (shown s) = [] then Inl NoSuchElementException
         else Inr (ButtonEl (page_last_class (shown s))))
      else Inl NoSuchElementException)"

definition grid_find_elements :: "By \<Rightarrow> string \<Rightarrow> grid_state \<Rightarrow> exn + elem list" where
  "grid_find_elements b sel s =
     (if sel = table_rows_css \<or> sel = ''table tbody tr'' then Inr (map RowEl (page_rows (shown s)))
      else if sel = ''.payments-collected-table tbody tr td:nth-child(2)'' then
        Inr (map CellEl (second_cells (page_rows (shown s))))
      else if sel = page_links_css \<or> sel = ''.page-link, .pagination a'' then
        Inr (map LinkEl (page_links (shown s)))
      else if sel = last_item_css
              \<or> sel = ''.page-item:last-child .page-link, a[rel='next'], .pagination .next'' then
        (if page_links (shown s) = [] then Inr [] else Inr [ItemEl (page_last_class (shown s))])
      else if sel = ''.pagination, nav[aria-label*='Pagination']'' then
        (if page_links (shown s) = [] then Inr [] else Inr [OtherEl])
      else if sel = ''.page-item.active .page-link, .pagination .active'' then
        (case page_active (shown s) of None \<Rightarrow> Inr [] | Some t \<Rightarrow> Inr [LinkEl t])
      else Inr [])"

definition grid_elem_find_element :: "elem \<Rightarrow> By \<Rightarrow> string \<Rightarrow> grid_state \<Rightarrow> exn + elem" where
  "grid_elem_find_element e b sel s =
     (case e of
        ButtonEl c \<Rightarrow> if b = XPATH \<and> sel = ''..'' then Inr (ItemEl c) else Inl NoSuchElementException
      | _ \<Rightarrow> Inl NoSuchElementException)"

definition grid_elem_find_elements :: "elem \<Rightarrow> By \<Rightarrow> string \<Rightarrow> grid_state \<Rightarrow> exn + elem list" where
  "grid_elem_find_elements e b sel s =
     (case e of
        RowEl cs \<Rightarrow> if b = TAG_NAME \<and> sel = ''td'' then Inr (map CellEl cs) else Inr []
      | _ \<Rightarrow> Inr [])"

definition grid_elem_text :: "elem \<Rightarrow> grid_state \<Rightarrow> exn + string" where
  "grid_elem_text e s =
     (case e of
        CellEl t \<Rightarrow> Inr t
      | LinkEl t \<Rightarrow> Inr t
      | RowEl cs \<Rightarrow> Inr (concat cs)
      | _ \<Rightarrow> Inr [])"

definition grid_get_attribute :: "elem \<Rightarrow> string \<Rightarrow> grid_state \<Rightarrow> exn + string option" where
  "grid_get_attribute e a s =
     (case e of
        ItemEl c \<Rightarrow> if a = ''class'' then Inr (Some c) else Inr None
      | _ \<Rightarrow> Inr None)"

definition grid_wait_until :: "nat \<Rightarrow> condition \<Rightarrow> grid_state \<Rightarrow> (exn + elem) \<times> grid_state" where
  "grid_wait_until timeout c s =
     (case c of
        element_to_be_clickable b sel \<Rightarrow>
          (case grid_find_element b sel s of
             Inl _ \<Rightarrow> (Inl TimeoutException, s)
           | Inr e \<Rightarrow> (Inr e, s))
      | presence_of_element_located b sel \<Rightarrow>
          if b = CSS_SELECTOR \<and> sel = table_rows_css \<and> page_rows (shown s) = []
          then (Inl TimeoutException, s)
          else (Inr OtherEl, s))"

text \<open>The number of page loads made so far.\<close>

definition loads :: "grid_state \<Rightarrow> nat" where
  "loads s = length (filter (\<lambda>k. k = PageLoad) (snd s))"

definition grid_driver :: "grid \<Rightarrow> (grid_state, elem) driver" where
  "grid_driver g =
     \<lparr>find_element = grid_find_element,
      find_elements = grid_find_elements,
      elem_find_element = grid_elem_find_element,
      elem_find_elements = grid_elem_find_elements,
      elem_text = grid_elem_text,
      get_attribute = grid_get_attribute,
      click = (\<lambda>e. do_click NativeClick (native_raises g)),
      execute_script =
        (\<lambda>js arg s. if js = click_js then do_click ScriptedClick (scripted_raises g) s
                     else (None, s)),
      move_to_element_click_perform = (\<lambda>e. do_click SyntheticClick (synthetic_raises g)),
      wait_until = grid_wait_until,
      wait_until_invisible = (\<lambda>timeout b sel s. (None, s)),
      driver_get =
        (\<lambda>url s. (get_raises g (loads s),
                   (if get_raises g (loads s) = None then pages g else fst s, snd s @ [PageLoad]))),
      select_by_value = (\<lambda>e v s. (None, s)),
      clear = (\<lambda>e s. (None, s)),
      send_keys = (\<lambda>e t s. (None, s))\<rparr>"

text \<open>A grid on which every click works, and its start state.\<close>

definition plain_grid :: "grid_page list \<Rightarrow> grid" where
  "plain_grid ps =
     \<lparr>pages = ps, native_raises = None, scripted_raises = None, synthetic_raises = None,
      get_raises = (\<lambda>n. None)\<rparr>"

definition start :: "grid \<Rightarrow> grid_state" where
  "start g = (pages g, [])"

text \<open>A page of rows with a pagination bar of two pages, shown as page \<open>n\<close>.\<close>

definition two_page_bar :: "string list list \<Rightarrow> string \<Rightarrow> string \<Rightarrow> grid_page" where
  "two_page_bar rs n cls =
     \<lparr>page_rows = rs, page_active = Some n, page_links = [''1'', ''2''], page_last_class = cls\<rparr>"

text \<open>A \<open>json.loads\<close> for pages without payloads.\<close>

definition no_json :: "string \<Rightarrow> json option" where
  "no_json s = None"

section \<open>Example grids\<close>

text \<open>The grids on which the theorems are instantiated.\<close>

definition january :: "(string \<times> string) option" where
  "january = Some (''2025-01-01'', ''2025-01-31'')"

definition dated_row :: "string \<Rightarrow> string \<Rightarrow> elem" where
  "dated_row d i = RowEl [d, ''PAYOUT'', i]"

definition no_grid :: grid where
  "no_grid = plain_grid []"

text \<open>A single page without a pagination bar.\<close>

definition single_page :: grid where
  "single_page =
     plain_grid
       [\<lparr>page_rows = [[''01-01-2025'', ''TX1'', ''0700'', ''100'', ''ACCEPTED'']],
         page_active = None, page_links = [], page_last_class = []\<rparr>]"

text \<open>The last of two pages: the "next" item is disabled.\<close>

definition last_page :: grid where
  "last_page = plain_grid [two_page_bar [] ''2'' ''page-item disabled'']"

text \<open>
  Two pages; the native click is intercepted, the scripted click raises as well, the
  synthetic click works.
\<close>

definition intercepted_grid :: grid where
  "intercepted_grid =
     \<lparr>pages = [two_page_bar [] ''1'' ''page-item'', two_page_bar [] ''2'' ''page-item disabled''],
      native_raises = Some ElementClickInterceptedException,
      scripted_raises = Some WebDriverException,
      synthetic_raises = None,
      get_raises = (\<lambda>n. None)\<rparr>"

text \<open>The same, with a native click that raises because the button went stale.\<close>

definition stale_grid :: grid where
  "stale_grid = intercepted_grid\<lparr>native_raises := Some StaleElementReferenceException\<rparr>"

text \<open>A pagination bar that numbers its pages from zero, showing the first page.\<close>

definition zero_based_page :: grid where
  "zero_based_page =
     plain_grid
       [\<lparr>page_rows = [], page_active = Some ''0'', page_links = [''0'', ''1'', ''2''],
         page_last_class = ''page-item''\<rparr>]"

text \<open>
  A page on which the identifier cell of the only row still reads as a loading
  placeholder.
\<close>

definition loading_page :: grid where
  "loading_page =
     plain_grid
       [\<lparr>page_rows = [[''01-01-2025'', ''Loading...'', ''Loading...'', ''0'', ''PENDING'']],
         page_active = None, page_links = [], page_last_class = []\<rparr>]"

text \<open>
  Two pages that overlap: the row \<open>TX1\<close> of the first page is read again on the
  second. The first page also has a row with a blank identifier.
\<close>

definition tx :: "string \<Rightarrow> string list" where
  "tx i = [''01-01-2025'', i, ''0700000000'', ''100'', ''ACCEPTED'']"

definition overlapping_pages :: grid where
  "overlapping_pages =
     plain_grid
       [two_page_bar [tx ''TX1'', tx ''  '', tx ''TX2''] ''1'' ''page-item'',
        two_page_bar [tx ''TX1''] ''2'' ''page-item disabled'']"

definition record_of :: "string \<Rightarrow> transaction" where
  "record_of i =
     \<lparr>date = ''01-01-2025'', transaction_id = i, phone_number = ''0700000000'',
      amount = ''100'', status = ''ACCEPTED'', payload_fields = []\<rparr>"


text \<open>A single page whose "next" item is never disabled, and on which every click works.\<close>

definition stuck_grid :: grid where
  "stuck_grid = plain_grid [two_page_bar [tx ''TX1''] ''1'' ''page-item'']"




text \<open>
  A page of four payout rows, dated 2025-02-01, 2025-01-15, 2025-01-01 and 2025-01-31
  in the format of the grid.
\<close>

definition january_page :: grid where
  "january_page =
     plain_grid
       [\<lparr>page_rows = [[''01-02-2025'', ''PAYOUT'', ''A''], [''15-01-2025'', ''PAYOUT'', ''B''],
                      [''01-01-2025'', ''PAYOUT'', ''C''], [''31-01-2025'', ''PAYOUT'', ''D'']],
         page_active = None, page_links = [], page_last_class = []\<rparr>]"

section \<open>Evaluation rules\<close>

lemmas py_eval = isspace_def isdigit_def digit_val_def strip_def split_def nonzero_digit_def
  parse_d_def parse_m_def parse_Y_def strptime_dmY_def strptime_Ymd_def make_datetime_def
  days_in_month_def is_leap_def datetime_le_def py_int_def int_space_def int_body_def is_date_in_range_def

lemmas grid_eval = grid_driver_def grid_find_element_def grid_find_elements_def
  grid_elem_find_element_def grid_elem_find_elements_def grid_elem_text_def
  grid_get_attribute_def grid_wait_until_def shown_def advance_def do_click_def
  second_cells_def loads_def plain_grid_def start_def two_page_bar_def empty_page_def no_json_def
  table_rows_css_def active_link_css_def page_links_css_def last_item_css_def
  next_button_css_def scroll_into_view_js_def click_js_def scroll_bottom_js_def

section \<open>Date filtering\<close>

lemma enhanced_rows_append:
  "enhanced_rows drv s df (xs @ ys) = enhanced_rows drv s df xs @ enhanced_rows drv s df ys"
  by (induction xs) (auto split: sum.splits option.splits)

text \<open>
  C4. With a date filter whose bounds parse, a row of the table that is otherwise
  eligible (more than two cells, an identifier that is neither empty nor a loading
  placeholder) is included if and only if the first token of its date cell parses as
  a \<open>DD-MM-YYYY\<close> date \<open>d\<close> with \<open>start \<le> d \<le> end\<close>, both bounds included: the
  list that \<open>extract_transaction_ids\<close> returns is the identifiers of the rows before
  it, then its own identifier if and only if its date is in the range, then the
  identifiers of the rows after it.
\<close>

theorem date_filter_inclusive:
  assumes "strptime_Ymd start_date = Some a"
    and "strptime_Ymd end_date = Some b"
    and "wait_until drv 15 (presence_of_element_located TAG_NAME ''table'') s0 = (Inr w, s)"
    and "find_elements drv CSS_SELECTOR ''table tbody tr'' s = Inr (before @ row # after)"
    and "elem_find_elements drv row TAG_NAME ''td'' s = Inr cells"
    and "2 < length cells"
    and "elem_text drv (cells ! 0) s = Inr date_cell"
    and "elem_text drv (cells ! 2) s = Inr id_cell"
    and "strip id_cell \<noteq> []"
    and "\<not> startswith (strip id_cell) ''Loading''"
  shows "extract_transaction_ids drv (Some (start_date, end_date)) s0 =
           (enhanced_rows drv s (Some (start_date, end_date)) before
              @ (if \<exists>tok rest d. split (strip date_cell) = tok # rest \<and> strptime_dmY tok = Some d
                       \<and> datetime_le a d \<and> datetime_le d b
                 then [strip id_cell] else [])
              @ enhanced_rows drv s (Some (start_date, end_date)) after,
            s)"
proof -
  have row: "enhanced_row drv s (Some (start_date, end_date)) row =
               (if \<exists>tok rest d. split (strip date_cell) = tok # rest \<and> strptime_dmY tok = Some d
                      \<and> datetime_le a d \<and> datetime_le d b
                then Inr (Some (strip id_cell)) else Inr None)"
    using assms(1,2,5-10)
    by (auto simp: enhanced_row_def is_date_in_range_def split: list.splits option.splits)
  have "extract_transaction_ids drv (Some (start_date, end_date)) s0
          = (enhanced_rows drv s (Some (start_date, end_date)) (before @ row # after), s)"
    using assms(3,4) by (simp add: extract_transaction_ids_def)
  then show ?thesis
    by (auto simp: enhanced_rows_append row)
qed

text \<open>
  The filter from 2025-01-01 to 2025-01-31 on a page of rows dated 2025-02-01,
  2025-01-15, 2025-01-01 and 2025-01-31: the identifier of the first is left out, the
  other three are returned.
\<close>

theorem date_filter_inclusive_witness:
  "extract_transaction_ids (grid_driver january_page) january (start january_page)
     = ([''B'', ''C'', ''D''], start january_page)"
proof -
  let ?drv = "grid_driver january_page" and ?s = "start january_page"
  let ?r1 = "RowEl [''01-02-2025'', ''PAYOUT'', ''A'']"
  let ?r2 = "RowEl [''15-01-2025'', ''PAYOUT'', ''B'']"
  let ?r3 = "RowEl [''01-01-2025'', ''PAYOUT'', ''C'']"
  let ?r4 = "RowEl [''31-01-2025'', ''PAYOUT'', ''D'']"
  have a: "strptime_Ymd ''2025-01-01'' = Some \<lparr>year = 2025, month = 1, day = 1\<rparr>"
    by (simp add: py_eval)
  have b: "strptime_Ymd ''2025-01-31'' = Some \<lparr>year = 2025, month = 1, day = 31\<rparr>"
    by (simp add: py_eval)
  have table: "wait_until ?drv 15 (presence_of_element_located TAG_NAME ''table'') ?s
                 = (Inr OtherEl, ?s)"
    by (simp add: grid_eval)
  have found: "find_elements ?drv CSS_SELECTOR ''table tbody tr'' ?s = Inr [?r1, ?r2, ?r3, ?r4]"
    by (simp add: january_page_def grid_eval)
  have cells: "elem_find_elements ?drv (RowEl [d, ''PAYOUT'', i]) TAG_NAME ''td'' ?s
                 = Inr [CellEl d, CellEl ''PAYOUT'', CellEl i]" for d i
    by (simp add: grid_eval)
  let ?f = "Some (''2025-01-01'', ''2025-01-31'')"
  let ?goal = "extract_transaction_ids ?drv ?f ?s = ([''B'', ''C'', ''D''], ?s)"
  have date_cell: "elem_text ?drv ([CellEl d, CellEl ''PAYOUT'', CellEl i] ! 0) ?s = Inr d" for d i
    by (simp add: grid_eval)
  have id_cell: "elem_text ?drv ([CellEl d, CellEl ''PAYOUT'', CellEl i] ! 2) ?s = Inr i" for d i
    by (simp add: grid_eval)
  have three: "2 < length [CellEl d, CellEl ''PAYOUT'', CellEl i]" for d i
    by simp
  have present: "strip ''A'' \<noteq> []" "strip ''B'' \<noteq> []" "strip ''C'' \<noteq> []" "strip ''D'' \<noteq> []"
    by (simp_all add: py_eval)
  have loaded: "\<not> startswith (strip ''A'') ''Loading''" "\<not> startswith (strip ''B'') ''Loading''"
    "\<not> startswith (strip ''C'') ''Loading''" "\<not> startswith (strip ''D'') ''Loading''"
    by (simp_all add: py_eval)
  have row1: "enhanced_row ?drv ?s ?f ?r1 = Inr None"
    by (simp add: enhanced_row_def grid_eval py_eval)
  have row2: "enhanced_row ?drv ?s ?f ?r2 = Inr (Some ''B'')"
    by (simp add: enhanced_row_def grid_eval py_eval)
  have row3: "enhanced_row ?drv ?s ?f ?r3 = Inr (Some ''C'')"
    by (simp add: enhanced_row_def grid_eval py_eval)
  have row4: "enhanced_row ?drv ?s ?f ?r4 = Inr (Some ''D'')"
    by (simp add: enhanced_row_def grid_eval py_eval)
  have "find_elements ?drv CSS_SELECTOR ''table tbody tr'' ?s = Inr ([] @ ?r1 # [?r2, ?r3, ?r4])"
    using found by simp
  from date_filter_inclusive
         [OF a b table this cells three date_cell id_cell present(1) loaded(1)]
  have excluded: ?goal
    by (simp add: py_eval row2 row3 row4)
  have "find_elements ?drv CSS_SELECTOR ''table tbody tr'' ?s = Inr ([?r1] @ ?r2 # [?r3, ?r4])"
    using found by simp
  from date_filter_inclusive
         [OF a b table this cells three date_cell id_cell present(2) loaded(2)]
  have inside: ?goal
    by (simp add: py_eval row1 row3 row4)
  have "find_elements ?drv CSS_SELECTOR ''table tbody tr'' ?s = Inr ([?r1, ?r2] @ ?r3 # [?r4])"
    using found by simp
  from date_filter_inclusive
         [OF a b table this cells three date_cell id_cell present(3) loaded(3)]
  have lower: ?goal
    by (simp add: py_eval row1 row2 row4)
  have "find_elements ?drv CSS_SELECTOR ''table tbody tr'' ?s = Inr ([?r1, ?r2, ?r3] @ ?r4 # [])"
    using found by simp
  from date_filter_inclusive
         [OF a b table this cells three date_cell id_cell present(4) loaded(4)]
  have upper: ?goal
    by (simp add: py_eval row1 row2 row3)
  from excluded inside lower upper show ?thesis
    by (simp add: january_def)
qed

text \<open>
  C10. With a date filter, a row whose date cell has no token, or whose first token
  is not a \<open>DD-MM-YYYY\<close> date, fails the range check and adds nothing to the
  identifiers of the page. The check is a total function into the Booleans: a failed
  parse is the value \<open>False\<close>.
\<close>

theorem unparsable_date_excluded:
  assumes "elem_find_elements drv row TAG_NAME ''td'' s = Inr cells"
    and "elem_text drv (cells ! 0) s = Inr t0"
    and "case split (strip t0) of [] \<Rightarrow> True | tok # _ \<Rightarrow> strptime_dmY tok = None"
  shows "\<not> is_date_in_range (strip t0) start_date end_date
         \<and> enhanced_rows drv s (Some (start_date, end_date)) (row # rest)
             = enhanced_rows drv s (Some (start_date, end_date)) rest"
  using assms
  by (auto simp: enhanced_row_def is_date_in_range_def
           split: list.splits option.splits sum.splits)

theorem unparsable_date_excluded_witness:
  "\<not> is_date_in_range ''2025/01/15'' ''2025-01-01'' ''2025-01-31''
   \<and> enhanced_rows (grid_driver no_grid) (start no_grid) january
       [dated_row ''2025/01/15'' ''E'', dated_row ''15-01-2025'' ''F''] = [''F'']"
proof -
  let ?drv = "grid_driver no_grid" and ?s = "start no_grid"
  have cells: "elem_find_elements ?drv (dated_row ''2025/01/15'' ''E'') TAG_NAME ''td'' ?s
                 = Inr [CellEl ''2025/01/15'', CellEl ''PAYOUT'', CellEl ''E'']"
    by (simp add: grid_eval dated_row_def)
  have date_text: "elem_text ?drv ([CellEl ''2025/01/15'', CellEl ''PAYOUT'', CellEl ''E''] ! 0) ?s
               = Inr ''2025/01/15''"
    by (simp add: grid_eval)
  have bad: "case split (strip ''2025/01/15'') of [] \<Rightarrow> True
             | tok # _ \<Rightarrow> strptime_dmY tok = None"
    by (simp add: py_eval)
  have kept: "enhanced_rows ?drv ?s january [dated_row ''15-01-2025'' ''F''] = [''F'']"
    by (simp add: january_def enhanced_row_def dated_row_def grid_eval py_eval)
  show ?thesis
    using unparsable_date_excluded[OF cells date_text bad, of "''2025-01-01''" "''2025-01-31''"
            "[dated_row ''15-01-2025'' ''F'']"] kept
    by (simp add: january_def py_eval)
qed

section \<open>Reading the pagination state\<close>

text \<open>
  C6. When the page has no pagination control (the active page link is not found,
  respectively no pagination element is found), the state that is read is
  \<open>{current_page: 1, total_pages: 1, has_next: False}\<close>; the read is a total
  function, so nothing is raised.
\<close>

theorem no_pagination_control_single_page:
  "(find_element drv CSS_SELECTOR active_link_css s = Inl e \<longrightarrow>
      get_pagination_info drv s = \<lparr>current_page = 1, total_pages = 1, has_next = False\<rparr>)
   \<and> (find_elements drv CSS_SELECTOR ''.pagination, nav[aria-label*='Pagination']'' s = Inr [] \<longrightarrow>
      enhanced_get_pagination_info drv s
        = \<lparr>current_page = 1, total_pages = 1, has_next = False\<rparr>)"
  by (simp add: get_pagination_info_def enhanced_get_pagination_info_def fallback_info_def)

theorem no_pagination_control_single_page_witness:
  "get_pagination_info (grid_driver single_page) (start single_page)
     = \<lparr>current_page = 1, total_pages = 1, has_next = False\<rparr>
   \<and> enhanced_get_pagination_info (grid_driver single_page) (start single_page)
     = \<lparr>current_page = 1, total_pages = 1, has_next = False\<rparr>"
proof -
  have none: "find_element (grid_driver single_page) CSS_SELECTOR active_link_css
                (start single_page) = Inl NoSuchElementException"
    by (simp add: single_page_def grid_eval)
  have empty: "find_elements (grid_driver single_page) CSS_SELECTOR
                 ''.pagination, nav[aria-label*='Pagination']'' (start single_page) = Inr []"
    by (simp add: single_page_def grid_eval)
  show ?thesis
    using no_pagination_control_single_page
            [of "grid_driver single_page" "start single_page" NoSuchElementException]
          none empty
    by simp
qed

lemma max_page_number_ge:
  "max_page_number drv s links t = Inr r \<Longrightarrow> t \<le> r"
proof (induction links arbitrary: t)
  case Nil
  then show ?case by simp
next
  case (Cons l links)
  then show ?case
    by (fastforce split: sum.splits option.splits if_splits)
qed

lemma max_page_number_mem:
  "max_page_number drv s links t = Inr r \<Longrightarrow> l \<in> set links \<Longrightarrow>
   elem_text drv l s = Inr x \<Longrightarrow> py_int x = Some n \<Longrightarrow> n \<le> r"
proof (induction links arbitrary: t)
  case Nil
  then show ?case by simp
next
  case (Cons k links)
  show ?case
  proof (cases "l = k")
    case True
    with Cons.prems have "max_page_number drv s links (max t n) = Inr r" by simp
    then have "max t n \<le> r" by (rule max_page_number_ge)
    then show ?thesis by simp
  next
    case False
    with Cons.prems have mem: "l \<in> set links" by simp
    from Cons.prems(1) obtain t' where "max_page_number drv s links t' = Inr r"
      by (auto split: sum.splits option.splits if_splits)
    then show ?thesis using Cons.IH mem Cons.prems by blast
  qed
qed

lemma enhanced_max_page_number_ge:
  "enhanced_max_page_number drv s links t = Inr r \<Longrightarrow> t \<le> r"
proof (induction links arbitrary: t)
  case Nil
  then show ?case by simp
next
  case (Cons l links)
  then show ?case
    by (fastforce split: sum.splits option.splits if_splits)
qed

lemma enhanced_current_page_cases:
  "enhanced_current_page drv s els = Inr n \<Longrightarrow>
   n = 1 \<or> (\<exists>b bs x. els = b # bs \<and> elem_text drv b s = Inr x \<and> py_int (strip x) = Some n)"
  by (auto simp: enhanced_current_page_def split: list.splits sum.splits option.splits if_splits)

lemma get_pagination_info_cases:
  "get_pagination_info drv s = fallback_info
   \<or> (\<exists>a x n links r nb nx.
         find_element drv CSS_SELECTOR active_link_css s = Inr a
         \<and> elem_text drv a s = Inr x \<and> py_int x = Some n
         \<and> find_elements drv CSS_SELECTOR page_links_css s = Inr links
         \<and> max_page_number drv s links 1 = Inr r
         \<and> get_pagination_info drv s = \<lparr>current_page = n, total_pages = r, has_next = nx\<rparr>)"
  by (auto simp: get_pagination_info_def split: sum.splits option.splits)

lemma enhanced_get_pagination_info_cases:
  "enhanced_get_pagination_info drv s = fallback_info
   \<or> (\<exists>els n links r nx.
         find_elements drv CSS_SELECTOR ''.page-item.active .page-link, .pagination .active'' s
           = Inr els
         \<and> enhanced_current_page drv s els = Inr n
         \<and> enhanced_max_page_number drv s links n = Inr r
         \<and> enhanced_get_pagination_info drv s
             = \<lparr>current_page = n, total_pages = r, has_next = nx\<rparr>)"
  by (auto simp: enhanced_get_pagination_info_def split: sum.splits option.splits)

text \<open>
  C9, as the code has it. The fallback value satisfies the invariant. The read of
  \<open>CinetPayScraper\<close> and \<open>ImprovedCinetPayScraper\<close> always returns
  \<open>total_pages \<ge> 1\<close>, and \<open>total_pages \<ge> current_page\<close> when the active link is
  among the page links it reads; the read of \<open>EnhancedTransactionIDScraper\<close> always
  returns \<open>total_pages \<ge> current_page\<close>. In both, \<open>current_page \<ge> 1\<close> unless the
  active page link itself reads as a number below 1: the number is taken as it is.
\<close>

theorem pagination_state_bounds:
  "1 \<le> current_page fallback_info \<and> current_page fallback_info \<le> total_pages fallback_info
   \<and> 1 \<le> total_pages (get_pagination_info drv s)
   \<and> current_page (enhanced_get_pagination_info drv s)
       \<le> total_pages (enhanced_get_pagination_info drv s)
   \<and> (find_element drv CSS_SELECTOR active_link_css s = Inr a
        \<and> find_elements drv CSS_SELECTOR page_links_css s = Inr links \<and> a \<in> set links
      \<longrightarrow> current_page (get_pagination_info drv s) \<le> total_pages (get_pagination_info drv s))
   \<and> (1 \<le> current_page (get_pagination_info drv s)
      \<or> (\<exists>b x n. find_element drv CSS_SELECTOR active_link_css s = Inr b
            \<and> elem_text drv b s = Inr x \<and> py_int x = Some n \<and> n < 1))
   \<and> (1 \<le> current_page (enhanced_get_pagination_info drv s)
      \<or> (\<exists>b bs x n.
            find_elements drv CSS_SELECTOR
              ''.page-item.active .page-link, .pagination .active'' s = Inr (b # bs)
            \<and> elem_text drv b s = Inr x \<and> py_int (strip x) = Some n \<and> n < 1))"
proof -
  have fb: "1 \<le> current_page fallback_info \<and> current_page fallback_info \<le> total_pages fallback_info"
    by (simp add: fallback_info_def)
  have tot: "1 \<le> total_pages (get_pagination_info drv s)"
    using get_pagination_info_cases[of drv s]
    by (auto simp: fallback_info_def dest: max_page_number_ge)
  have enh: "current_page (enhanced_get_pagination_info drv s)
               \<le> total_pages (enhanced_get_pagination_info drv s)"
    using enhanced_get_pagination_info_cases[of drv s]
    by (auto simp: fallback_info_def dest: enhanced_max_page_number_ge)
  have mem: "current_page (get_pagination_info drv s) \<le> total_pages (get_pagination_info drv s)"
    if "find_element drv CSS_SELECTOR active_link_css s = Inr a"
      and "find_elements drv CSS_SELECTOR page_links_css s = Inr links" and "a \<in> set links"
    using get_pagination_info_cases[of drv s] that
    by (auto simp: fallback_info_def dest: max_page_number_mem)
  have cur: "1 \<le> current_page (get_pagination_info drv s)
      \<or> (\<exists>b x n. find_element drv CSS_SELECTOR active_link_css s = Inr b
            \<and> elem_text drv b s = Inr x \<and> py_int x = Some n \<and> n < 1)"
    using get_pagination_info_cases[of drv s]
    by (auto simp: fallback_info_def)
  have ecur: "1 \<le> current_page (enhanced_get_pagination_info drv s)
      \<or> (\<exists>b bs x n.
            find_elements drv CSS_SELECTOR
              ''.page-item.active .page-link, .pagination .active'' s = Inr (b # bs)
            \<and> elem_text drv b s = Inr x \<and> py_int (strip x) = Some n \<and> n < 1)"
  proof (cases "enhanced_get_pagination_info drv s = fallback_info")
    case True
    then show ?thesis by (simp add: fallback_info_def)
  next
    case False
    then obtain els n links r nx where
      els: "find_elements drv CSS_SELECTOR
              ''.page-item.active .page-link, .pagination .active'' s = Inr els"
      and n: "enhanced_current_page drv s els = Inr n"
      and res: "enhanced_get_pagination_info drv s
                  = \<lparr>current_page = n, total_pages = r, has_next = nx\<rparr>"
      using enhanced_get_pagination_info_cases[of drv s] by blast
    from enhanced_current_page_cases[OF n] show ?thesis
    proof
      assume "n = 1"
      with res show ?thesis by simp
    next
      assume "\<exists>b bs x. els = b # bs \<and> elem_text drv b s = Inr x \<and> py_int (strip x) = Some n"
      then obtain b bs x where "els = b # bs" "elem_text drv b s = Inr x"
        "py_int (strip x) = Some n" by blast
      with els res show ?thesis by (cases "1 \<le> n") auto
    qed
  qed
  show ?thesis using fb tot enh mem cur ecur by blast
qed

theorem pagination_state_bounds_witness:
  "1 \<le> current_page (get_pagination_info (grid_driver last_page) (start last_page))
   \<and> current_page (get_pagination_info (grid_driver last_page) (start last_page))
       \<le> total_pages (get_pagination_info (grid_driver last_page) (start last_page))"
proof -
  let ?drv = "grid_driver last_page" and ?s = "start last_page"
  have active: "find_element ?drv CSS_SELECTOR active_link_css ?s = Inr (LinkEl ''2'')"
    by (simp add: last_page_def grid_eval)
  have links: "find_elements ?drv CSS_SELECTOR page_links_css ?s
                 = Inr [LinkEl ''1'', LinkEl ''2'']"
    by (simp add: last_page_def grid_eval)
  have two: "elem_text ?drv (LinkEl ''2'') ?s = Inr ''2''" "py_int ''2'' = Some 2"
    by (simp_all add: grid_eval py_eval)
  have no_low: "\<not> (\<exists>b x n. find_element ?drv CSS_SELECTOR active_link_css ?s = Inr b
                  \<and> elem_text ?drv b ?s = Inr x \<and> py_int x = Some n \<and> n < 1)"
    using active two by auto
  show ?thesis
    using pagination_state_bounds[of ?drv ?s "LinkEl ''2''" "[LinkEl ''1'', LinkEl ''2'']"]
          active links no_low
    by auto
qed

text \<open>
  C9 as stated fails: on a pagination bar whose active link reads \<open>0\<close>, both reads
  return \<open>current_page = 0\<close>.
\<close>

theorem pagination_state_counterexample:
  "get_pagination_info (grid_driver zero_based_page) (start zero_based_page)
     = \<lparr>current_page = 0, total_pages = 2, has_next = True\<rparr>
   \<and> enhanced_get_pagination_info (grid_driver zero_based_page) (start zero_based_page)
     = \<lparr>current_page = 0, total_pages = 2, has_next = True\<rparr>
   \<and> \<not> 1 \<le> current_page (get_pagination_info (grid_driver zero_based_page)
                           (start zero_based_page))"
  by (simp add: get_pagination_info_def enhanced_get_pagination_info_def
        enhanced_current_page_def next_available_def zero_based_page_def grid_eval py_eval)

section \<open>Advancing\<close>

text \<open>
  C7. When the "next" control resolves and the class of its parent contains
  \<open>disabled\<close>, the advance returns \<open>False\<close>, and the browser is left as the steps
  before the check left it: as it was for \<open>EnhancedTransactionIDScraper\<close>, after the
  scroll to the bottom and the wait for the button for \<open>ImprovedCinetPayScraper\<close>.
  No click of any kind is applied to it.
\<close>

theorem disabled_next_is_last_page:
  "(execute_script drv scroll_bottom_js None s = (None, s1)
      \<and> wait_until drv 15 (element_to_be_clickable CSS_SELECTOR next_button_css) s1 = (Inr b, s2)
      \<and> elem_find_element drv b XPATH ''..'' s2 = Inr p
      \<and> get_attribute drv p ''class'' s2 = Inr (Some c) \<and> contains ''disabled'' c
    \<longrightarrow> improved_go_to_next_page drv s = (False, s2))
   \<and> (resolve_next_button drv enhanced_next_selectors s = Inr (Some b)
      \<and> elem_find_element drv b XPATH ''..'' s = Inr p
      \<and> get_attribute drv p ''class'' s = Inr (Some c) \<and> contains ''disabled'' c
    \<longrightarrow> enhanced_go_to_next_page drv s = (False, s))"
  by (simp add: improved_go_to_next_page_def enhanced_go_to_next_page_def parent_disabled_def)

theorem disabled_next_is_last_page_witness:
  "improved_go_to_next_page (grid_driver last_page) (start last_page)
     = (False, pages last_page, [])
   \<and> enhanced_go_to_next_page (grid_driver last_page) (start last_page)
     = (False, pages last_page, [])"
proof -
  let ?drv = "grid_driver last_page" and ?s = "start last_page"
  let ?b = "ButtonEl ''page-item disabled''" and ?p = "ItemEl ''page-item disabled''"
  have scroll: "execute_script ?drv scroll_bottom_js None ?s = (None, ?s)"
    by (simp add: last_page_def grid_eval)
  have button: "wait_until ?drv 15 (element_to_be_clickable CSS_SELECTOR next_button_css) ?s
                  = (Inr ?b, ?s)"
    by (simp add: last_page_def grid_eval)
  have resolved: "resolve_next_button ?drv enhanced_next_selectors ?s = Inr (Some ?b)"
    by (simp add: enhanced_next_selectors_def last_page_def grid_eval)
  have parent: "elem_find_element ?drv ?b XPATH ''..'' ?s = Inr ?p"
    by (simp add: grid_eval)
  have cls: "get_attribute ?drv ?p ''class'' ?s = Inr (Some ''page-item disabled'')"
    by (simp add: grid_eval)
  have dis: "contains ''disabled'' ''page-item disabled''"
    by simp
  show ?thesis
    using disabled_next_is_last_page
            [of ?drv ?s ?s ?b ?s ?p "''page-item disabled''"]
          scroll button resolved parent cls dis
    by (simp add: start_def)
qed

text \<open>
  C3, as the code has it. In \<open>ImprovedCinetPayScraper.go_to_next_page\<close> the clicks
  are tried in the order native, scripted, synthetic, each on the browser as the one
  before left it. The native click escalates only when it raises
  \<open>ElementClickInterceptedException\<close>; any other exception of the native click
  returns \<open>False\<close> with no further click. The scripted and the synthetic click
  escalate on any exception. The advance is \<open>True\<close> after the first click that does
  not raise, provided the wait for the table that follows does not raise; it is
  \<open>False\<close> when all three clicks raise. \<open>CinetPayScraper.go_to_next_page\<close> has the
  native and the scripted click only, and escalates on any exception.
\<close>

theorem click_escalation_order:
  "(execute_script drv scroll_bottom_js None s = (None, sa)
      \<and> wait_until drv 15 (element_to_be_clickable CSS_SELECTOR next_button_css) sa = (Inr b, sb)
      \<and> parent_disabled drv b sb = Inr False
      \<and> click drv b sb = (ra, sc)
      \<and> execute_script drv click_js (Some b) sc = (rb, sd)
      \<and> move_to_element_click_perform drv b sd = (rc, se)
    \<longrightarrow> improved_go_to_next_page drv s =
          (if ra = None
           then (fst (improved_wait_for_table_load drv sc) = None,
                 snd (improved_wait_for_table_load drv sc))
           else if ra \<noteq> Some ElementClickInterceptedException then (False, sc)
           else if rb = None
           then (fst (improved_wait_for_table_load drv sd) = None,
                 snd (improved_wait_for_table_load drv sd))
           else if rc = None
           then (fst (improved_wait_for_table_load drv se) = None,
                 snd (improved_wait_for_table_load drv se))
           else (False, se)))
   \<and> (resolve_next_button drv next_selectors s = Inr (Some b)
      \<and> parent_disabled drv b s = Inr False
      \<and> execute_script drv scroll_into_view_js (Some b) s = (None, sa)
      \<and> click drv b sa = (ra, sb)
      \<and> execute_script drv click_js (Some b) sb = (rb, sc)
    \<longrightarrow> go_to_next_page drv s =
          (if ra = None then (True, snd (wait_for_table_load drv sb))
           else if rb = None then (True, snd (wait_for_table_load drv sc))
           else (False, sc)))"
  by (auto simp: improved_go_to_next_page_def go_to_next_page_def click_escalation_def
           split: prod.splits option.splits)

text \<open>
  A grid whose native click is intercepted and whose scripted click raises: the
  improved advance succeeds on the synthetic click, after the three clicks in order;
  the advance of \<open>CinetPayScraper\<close> has no third click and fails.
\<close>

theorem click_escalation_order_witness:
  "improved_go_to_next_page (grid_driver intercepted_grid) (start intercepted_grid)
     = (True, [two_page_bar [] ''2'' ''page-item disabled''],
        [NativeClick, ScriptedClick, SyntheticClick])
   \<and> go_to_next_page (grid_driver intercepted_grid) (start intercepted_grid)
     = (False, pages intercepted_grid, [NativeClick, ScriptedClick])"
proof -
  let ?drv = "grid_driver intercepted_grid" and ?s = "start intercepted_grid"
  let ?ps = "pages intercepted_grid"
  let ?b = "ButtonEl ''page-item''"
  let ?last = "[two_page_bar [] ''2'' ''page-item disabled'']"
  have scroll: "execute_script ?drv scroll_bottom_js None ?s = (None, ?s)"
    by (simp add: intercepted_grid_def grid_eval)
  have button: "wait_until ?drv 15 (element_to_be_clickable CSS_SELECTOR next_button_css) ?s
                  = (Inr ?b, ?s)"
    by (simp add: intercepted_grid_def grid_eval)
  have resolved: "resolve_next_button ?drv next_selectors ?s = Inr (Some ?b)"
    by (simp add: next_selectors_def intercepted_grid_def grid_eval)
  have enabled: "parent_disabled ?drv ?b st = Inr False" for st
    by (simp add: parent_disabled_def grid_eval)
  have view: "execute_script ?drv scroll_into_view_js (Some ?b) ?s = (None, ?s)"
    by (simp add: intercepted_grid_def grid_eval)
  have native: "click ?drv ?b ?s = (Some ElementClickInterceptedException, ?ps, [NativeClick])"
    by (simp add: intercepted_grid_def grid_eval)
  have scripted: "execute_script ?drv click_js (Some ?b) (?ps, [NativeClick])
                    = (Some WebDriverException, ?ps, [NativeClick, ScriptedClick])"
    by (simp add: intercepted_grid_def grid_eval)
  have synthetic: "move_to_element_click_perform ?drv ?b (?ps, [NativeClick, ScriptedClick])
                     = (None, ?last, [NativeClick, ScriptedClick, SyntheticClick])"
    by (simp add: intercepted_grid_def grid_eval)
  have loaded: "improved_wait_for_table_load ?drv
                  (?last, [NativeClick, ScriptedClick, SyntheticClick])
                = (None, ?last, [NativeClick, ScriptedClick, SyntheticClick])"
    by (simp add: improved_wait_for_table_load_def grid_eval)
  have improved: "improved_go_to_next_page ?drv ?s
                    = (True, ?last, [NativeClick, ScriptedClick, SyntheticClick])"
    using click_escalation_order
            [where drv = ?drv and s = ?s and sa = ?s and b = ?b and sb = ?s
               and ra = "Some ElementClickInterceptedException"
               and sc = "(?ps, [NativeClick])" and rb = "Some WebDriverException"
               and sd = "(?ps, [NativeClick, ScriptedClick])" and rc = None
               and se = "(?last, [NativeClick, ScriptedClick, SyntheticClick])"]
          scroll button enabled native scripted synthetic loaded
    by simp
  have base: "go_to_next_page ?drv ?s = (False, ?ps, [NativeClick, ScriptedClick])"
    using click_escalation_order
            [where drv = ?drv and s = ?s and sa = ?s and b = ?b
               and ra = "Some ElementClickInterceptedException"
               and sb = "(?ps, [NativeClick])" and rb = "Some WebDriverException"
               and sc = "(?ps, [NativeClick, ScriptedClick])"]
          resolved enabled view native scripted
    by simp
  show ?thesis using improved base by simp
qed

text \<open>
  C3 as stated fails: on a grid whose native click raises
  \<open>StaleElementReferenceException\<close>, whose scripted click raises and whose synthetic
  click works, the improved advance returns \<open>False\<close> after the native click alone.
\<close>

theorem click_escalation_counterexample:
  "improved_go_to_next_page (grid_driver stale_grid) (start stale_grid)
     = (False, pages stale_grid, [NativeClick])
   \<and> native_raises stale_grid = Some StaleElementReferenceException
   \<and> scripted_raises stale_grid = Some WebDriverException
   \<and> synthetic_raises stale_grid = None"
  by (simp add: improved_go_to_next_page_def click_escalation_def parent_disabled_def
        stale_grid_def intercepted_grid_def grid_eval)

section \<open>Rows and identifiers\<close>

lemma strip_empty_iff: "strip x = [] \<longleftrightarrow> (\<forall>c \<in> set x. isspace c)"
proof -
  have "(\<forall>c \<in> set (dropWhile isspace x). isspace c) \<longleftrightarrow> (\<forall>c \<in> set x. isspace c)"
  proof
    assume a: "\<forall>c \<in> set (dropWhile isspace x). isspace c"
    have "dropWhile isspace x = []"
    proof (rule ccontr)
      assume "dropWhile isspace x \<noteq> []"
      then have "\<not> isspace (hd (dropWhile isspace x))" by (rule hd_dropWhile)
      moreover from \<open>dropWhile isspace x \<noteq> []\<close> have "hd (dropWhile isspace x) \<in> set (dropWhile isspace x)"
        by simp
      ultimately show False using a by blast
    qed
    then show "\<forall>c \<in> set x. isspace c" by (simp add: dropWhile_eq_Nil_conv)
  next
    assume "\<forall>c \<in> set x. isspace c"
    then show "\<forall>c \<in> set (dropWhile isspace x). isspace c"
      using set_dropWhileD by fastforce
  qed
  then show ?thesis by (simp add: strip_def dropWhile_eq_Nil_conv)
qed

lemma extract_row_id:
  "extract_row jl drv s row = Inr (Some t) \<Longrightarrow>
   \<exists>cells x. elem_find_elements drv row TAG_NAME ''td'' s = Inr cells \<and> 5 \<le> length cells
     \<and> elem_text drv (cells ! 1) s = Inr x \<and> transaction_id t = strip x \<and> strip x \<noteq> []"
  by (auto simp: extract_row_def split: sum.splits if_splits)

lemma extract_rows_mem:
  "t \<in> set (extract_rows jl drv s rows) \<Longrightarrow> \<exists>row \<in> set rows. extract_row jl drv s row = Inr (Some t)"
  by (induction rows) (auto split: sum.splits option.splits)

lemma enhanced_row_id:
  "enhanced_row drv s df row = Inr (Some i) \<Longrightarrow>
   \<exists>cells x. elem_find_elements drv row TAG_NAME ''td'' s = Inr cells \<and> 2 < length cells
     \<and> elem_text drv (cells ! 2) s = Inr x \<and> i = strip x \<and> strip x \<noteq> []
     \<and> \<not> startswith (strip x) ''Loading''"
  by (auto simp: enhanced_row_def split: sum.splits if_splits option.splits)

lemma enhanced_rows_mem:
  "i \<in> set (enhanced_rows drv s df rows) \<Longrightarrow> \<exists>row \<in> set rows. enhanced_row drv s df row = Inr (Some i)"
  by (induction rows) (auto split: sum.splits option.splits)

text \<open>
  C2, as the code has it. A row whose identifier cell is empty or whitespace only
  produces no record, in either extractor, and every record or identifier that is
  returned is non-empty. \<open>EnhancedTransactionIDScraper.extract_transaction_ids\<close> also
  passes over a row whose identifier starts with \<open>Loading\<close>, and returns no such
  identifier. \<open>CinetPayScraper.extract_table_data\<close> has no check for a placeholder.
\<close>

theorem empty_identifier_never_extracted:
  "(\<forall>t \<in> set (extract_table_data jl drv s). transaction_id t \<noteq> [])
   \<and> (\<forall>i \<in> set (fst (extract_transaction_ids drv df s)). i \<noteq> [] \<and> \<not> startswith i ''Loading'')
   \<and> (elem_find_elements drv row TAG_NAME ''td'' s = Inr cells
        \<and> elem_text drv (cells ! 1) s = Inr x \<and> (\<forall>c \<in> set x. isspace c)
      \<longrightarrow> extract_rows jl drv s (row # rest) = extract_rows jl drv s rest)
   \<and> (elem_find_elements drv row TAG_NAME ''td'' s = Inr cells
        \<and> elem_text drv (cells ! 2) s = Inr x
        \<and> ((\<forall>c \<in> set x. isspace c) \<or> startswith (strip x) ''Loading'')
      \<longrightarrow> enhanced_rows drv s df (row # rest) = enhanced_rows drv s df rest)"
proof -
  have a: "\<forall>t \<in> set (extract_table_data jl drv s). transaction_id t \<noteq> []"
    by (auto simp: extract_table_data_def split: sum.splits
             dest!: extract_rows_mem extract_row_id)
  have b: "\<forall>i \<in> set (fst (extract_transaction_ids drv df s)). i \<noteq> [] \<and> \<not> startswith i ''Loading''"
    by (auto simp: extract_transaction_ids_def split: sum.splits prod.splits
             dest!: enhanced_rows_mem enhanced_row_id)
  have c: "extract_rows jl drv s (row # rest) = extract_rows jl drv s rest"
    if "elem_find_elements drv row TAG_NAME ''td'' s = Inr cells"
      and "elem_text drv (cells ! 1) s = Inr x" and "\<forall>c \<in> set x. isspace c"
    using that strip_empty_iff[of x] by (simp add: extract_row_def)
  have d: "enhanced_rows drv s df (row # rest) = enhanced_rows drv s df rest"
    if "elem_find_elements drv row TAG_NAME ''td'' s = Inr cells"
      and "elem_text drv (cells ! 2) s = Inr x"
      and "(\<forall>c \<in> set x. isspace c) \<or> startswith (strip x) ''Loading''"
    using that strip_empty_iff[of x]
    by (auto simp: enhanced_row_def split: sum.splits)
  show ?thesis using a b c d by blast
qed

theorem empty_identifier_never_extracted_witness:
  "map transaction_id
     (extract_table_data no_json (grid_driver overlapping_pages) (start overlapping_pages))
     = [''TX1'', ''TX2'']
   \<and> fst (extract_transaction_ids (grid_driver loading_page) None (start loading_page)) = []"
proof -
  let ?drv = "grid_driver overlapping_pages" and ?s = "start overlapping_pages"
  let ?blank = "RowEl (tx ''  '')"
  have rows: "find_elements ?drv CSS_SELECTOR table_rows_css ?s
                = Inr [RowEl (tx ''TX1''), ?blank, RowEl (tx ''TX2'')]"
    by (simp add: overlapping_pages_def grid_eval)
  have cells: "elem_find_elements ?drv ?blank TAG_NAME ''td'' ?s = Inr (map CellEl (tx ''  ''))"
    by (simp add: grid_eval)
  have blank: "elem_text ?drv (map CellEl (tx ''  '') ! 1) ?s = Inr ''  ''"
    by (simp add: tx_def grid_eval)
  have spaces: "\<forall>c \<in> set ''  ''. isspace c"
    by (simp add: isspace_def)
  have skip: "extract_rows no_json ?drv ?s (?blank # rest) = extract_rows no_json ?drv ?s rest"
    for rest
    using empty_identifier_never_extracted
            [where drv = ?drv and s = ?s and row = ?blank and cells = "map CellEl (tx ''  '')"
               and x = "''  ''" and jl = no_json and rest = rest]
          cells blank spaces
    by blast
  have row: "extract_row no_json ?drv ?s (RowEl (tx i)) = Inr (Some (record_of i))"
    if "strip i = i" "i \<noteq> []" for i
    using that
    by (simp add: extract_row_def read_payload_def payload_handler_def tx_def record_of_def
          grid_eval py_eval)
  have r1: "extract_row no_json ?drv ?s (RowEl (tx ''TX1'')) = Inr (Some (record_of ''TX1''))"
    by (rule row) (simp_all add: py_eval)
  have r2: "extract_row no_json ?drv ?s (RowEl (tx ''TX2'')) = Inr (Some (record_of ''TX2''))"
    by (rule row) (simp_all add: py_eval)
  have tail: "extract_rows no_json ?drv ?s [RowEl (tx ''TX2'')] = [record_of ''TX2'']"
    by (simp add: r2)
  have "extract_rows no_json ?drv ?s [RowEl (tx ''TX1''), ?blank, RowEl (tx ''TX2'')]
          = record_of ''TX1'' # extract_rows no_json ?drv ?s (?blank # [RowEl (tx ''TX2'')])"
    by (subst extract_rows.simps(2)) (simp only: r1 sum.case option.case)
  then have all_rows:
    "extract_rows no_json ?drv ?s [RowEl (tx ''TX1''), ?blank, RowEl (tx ''TX2'')]
       = [record_of ''TX1'', record_of ''TX2'']"
    by (simp only: skip tail)
  have one: "map transaction_id (extract_table_data no_json ?drv ?s) = [''TX1'', ''TX2'']"
    by (simp only: extract_table_data_def rows all_rows sum.case list.map)
       (simp add: record_of_def)
  let ?ld = "grid_driver loading_page" and ?ls = "start loading_page"
  let ?lrow = "RowEl [''01-01-2025'', ''Loading...'', ''Loading...'', ''0'', ''PENDING'']"
  have lrows: "find_elements ?ld CSS_SELECTOR ''table tbody tr'' ?ls = Inr [?lrow]"
    by (simp add: loading_page_def grid_eval)
  have lcells: "elem_find_elements ?ld ?lrow TAG_NAME ''td'' ?ls
                  = Inr (map CellEl [''01-01-2025'', ''Loading...'', ''Loading...'', ''0'', ''PENDING''])"
    by (simp add: grid_eval)
  have lid: "elem_text ?ld
               (map CellEl [''01-01-2025'', ''Loading...'', ''Loading...'', ''0'', ''PENDING''] ! 2)
               ?ls = Inr ''Loading...''"
    by (simp add: grid_eval)
  have ph: "startswith (strip ''Loading...'') ''Loading''"
    by (simp add: py_eval)
  have lskip: "enhanced_rows ?ld ?ls None [?lrow] = enhanced_rows ?ld ?ls None []"
    using empty_identifier_never_extracted
            [where drv = ?ld and s = ?ls and row = ?lrow and x = "''Loading...''"
               and cells = "map CellEl [''01-01-2025'', ''Loading...'', ''Loading...'', ''0'', ''PENDING'']"
               and df = None and rest = "[]"]
          lcells lid ph
    by blast
  have lwait: "wait_until ?ld 15 (presence_of_element_located TAG_NAME ''table'') ?ls
                 = (Inr OtherEl, ?ls)"
    by (simp add: grid_eval)
  have two: "fst (extract_transaction_ids ?ld None ?ls) = []"
    by (simp only: extract_transaction_ids_def lwait lrows lskip sum.case prod.case
          enhanced_rows.simps(1) fst_conv)
  show ?thesis using one two by simp
qed

text \<open>
  C2 as stated fails for \<open>CinetPayScraper.extract_table_data\<close>: a row whose
  identifier cell reads \<open>Loading...\<close> produces a record with that identifier.
\<close>

theorem loading_placeholder_counterexample:
  "map transaction_id
     (extract_table_data no_json (grid_driver loading_page) (start loading_page))
   = [''Loading...'']"
  by (simp add: extract_table_data_def extract_row_def read_payload_def payload_handler_def
        loading_page_def grid_eval py_eval)

section \<open>Accumulating records over pages\<close>






lemma tx_row:
  "strip i = i \<Longrightarrow> i \<noteq> [] \<Longrightarrow>
   extract_row no_json (grid_driver g) s (RowEl (tx i)) = Inr (Some (record_of i))"
  by (simp add: extract_row_def read_payload_def payload_handler_def tx_def record_of_def
        grid_eval py_eval)










section \<open>Termination of the page loops\<close>

lemma main_loop_returns:
  "\<exists>out n s'. main_loop drv page_count acc s = Some (out, n, s') \<and> n \<le> max 100 (page_count + 1)"
proof (induction "nat (99 - page_count)" arbitrary: page_count acc s)
  case 0
  then have "100 \<le> page_count + 1" by simp
  then show ?case by (subst main_loop.simps) simp
next
  case (Suc k)
  show ?case
  proof (cases "\<not> has_next (get_pagination_info drv s) \<or> 100 \<le> page_count + 1")
    case True
    then show ?thesis by (subst main_loop.simps) auto
  next
    case False
    obtain ok s' where g: "improved_go_to_next_page drv s = (ok, s')"
      by (cases "improved_go_to_next_page drv s")
    show ?thesis
    proof (cases ok)
      case False
      with \<open>\<not> (\<not> has_next (get_pagination_info drv s) \<or> 100 \<le> page_count + 1)\<close> g
      show ?thesis by (subst main_loop.simps) auto
    next
      case True
      from Suc.hyps(2) have "k = nat (99 - (page_count + 1))" by simp
      from Suc.hyps(1)[OF this, of "acc @ improved_extract_table_data drv s" s']
      obtain out n s'' where
        r: "main_loop drv (page_count + 1) (acc @ improved_extract_table_data drv s) s'
              = Some (out, n, s'')"
        and n: "n \<le> max 100 (page_count + 1 + 1)"
        by blast
      from False have "page_count + 1 < 100" by simp
      with n have "n \<le> max 100 (page_count + 1)" by simp
      moreover have "main_loop drv page_count acc s = Some (out, n, s'')"
        using False g True r by (subst main_loop.simps) simp
      ultimately show ?thesis by blast
    qed
  qed
qed

lemma scrape_all_pages_loop_returns:
  "m \<noteq> 0 \<Longrightarrow> \<exists>r. scrape_all_pages_loop jl drv (Some m) page_count acc s = Some r"
proof (induction "nat (m - page_count)" arbitrary: page_count acc s)
  case 0
  then have "over_limit (Some m) (page_count + 1)" by (simp add: over_limit_def)
  then show ?case by (subst scrape_all_pages_loop.simps) simp
next
  case (Suc k)
  from Suc.hyps(2) have k: "k = nat (m - (page_count + 1))" by simp
  obtain ok s' where g: "go_to_next_page drv s = (ok, s')"
    by (cases "go_to_next_page drv s")
  from Suc.hyps(1)[OF k Suc.prems, of "acc @ extract_table_data jl drv s" s']
  obtain r where "scrape_all_pages_loop jl drv (Some m) (page_count + 1)
                    (acc @ extract_table_data jl drv s) s' = Some r"
    by blast
  then show ?case
    using g by (subst scrape_all_pages_loop.simps) auto
qed

lemma stuck_has_next:
  "has_next (get_pagination_info (grid_driver stuck_grid) (pages stuck_grid, tr))"
  by (simp add: get_pagination_info_def next_available_def stuck_grid_def grid_eval py_eval)

lemma stuck_advance:
  "go_to_next_page (grid_driver stuck_grid) (pages stuck_grid, tr)
     = (True, pages stuck_grid, tr @ [NativeClick])"
  by (simp add: go_to_next_page_def next_selectors_def parent_disabled_def
        wait_for_table_load_def stuck_grid_def tx_def grid_eval py_eval)

lemma stuck_records:
  "extract_table_data no_json (grid_driver stuck_grid) (pages stuck_grid, tr) = [record_of ''TX1'']"
proof -
  have "find_elements (grid_driver stuck_grid) CSS_SELECTOR table_rows_css (pages stuck_grid, tr)
          = Inr [RowEl (tx ''TX1'')]"
    by (simp add: stuck_grid_def grid_eval)
  moreover have "strip ''TX1'' = ''TX1''"
    by (simp add: py_eval)
  ultimately show ?thesis
    by (simp add: extract_table_data_def tx_row)
qed

lemma stuck_never:
  assumes "scrape_all_pages_loop jl (grid_driver stuck_grid) None page_count acc s = Some y"
    and "fst s = pages stuck_grid"
  shows False
proof -
  have "drv = grid_driver stuck_grid \<longrightarrow> max_pages = None \<longrightarrow> fst s = pages stuck_grid \<longrightarrow> False"
    if "scrape_all_pages_loop jl drv max_pages page_count acc s = Some y"
    for drv max_pages
  proof (rule scrape_all_pages_loop.raw_induct
           [where P = "\<lambda>jl drv max_pages page_count acc s y.
                         drv = grid_driver stuck_grid \<longrightarrow> max_pages = None
                           \<longrightarrow> fst s = pages stuck_grid \<longrightarrow> False",
            OF _ that])
    fix f :: "(string \<Rightarrow> json option) \<Rightarrow> (grid_state, elem) driver \<Rightarrow> int option \<Rightarrow> int
                \<Rightarrow> transaction list \<Rightarrow> grid_state \<Rightarrow> (transaction list \<times> grid_state) option"
      and jl drv max_pages page_count acc s y
    assume IH: "\<And>jl drv max_pages page_count acc s y.
                  f jl drv max_pages page_count acc s = Some y \<Longrightarrow>
                  drv = grid_driver stuck_grid \<longrightarrow> max_pages = None
                    \<longrightarrow> fst s = pages stuck_grid \<longrightarrow> False"
      and body: "(if over_limit max_pages (page_count + 1) then Some (acc, s)
                  else if \<not> has_next (get_pagination_info drv s)
                  then Some (acc @ extract_table_data jl drv s, s)
                  else (case go_to_next_page drv s of
                          (ok, s') \<Rightarrow>
                            if ok
                            then f jl drv max_pages (page_count + 1)
                                   (acc @ extract_table_data jl drv s) s'
                            else Some (acc @ extract_table_data jl drv s, s'))) = Some y"
    show "drv = grid_driver stuck_grid \<longrightarrow> max_pages = None \<longrightarrow> fst s = pages stuck_grid \<longrightarrow> False"
    proof (intro impI)
      assume d: "drv = grid_driver stuck_grid" and m: "max_pages = None"
        and p: "fst s = pages stuck_grid"
      from p have s: "s = (pages stuck_grid, snd s)" by (cases s) simp
      have "f jl drv max_pages (page_count + 1) (acc @ extract_table_data jl drv s)
              (pages stuck_grid, snd s @ [NativeClick]) = Some y"
        using body stuck_has_next[of "snd s"] stuck_advance[of "snd s"] s
        by (simp add: d m over_limit_def)
      from IH[OF this] d m show False by simp
    qed
  qed
  with assms show False by blast
qed

lemma stuck_improved_advance:
  "improved_go_to_next_page (grid_driver stuck_grid) (pages stuck_grid, tr)
     = (True, pages stuck_grid, tr @ [NativeClick])"
  by (simp add: improved_go_to_next_page_def click_escalation_def parent_disabled_def
        improved_wait_for_table_load_def stuck_grid_def tx_def grid_eval py_eval)

lemma stuck_ids:
  "improved_extract_table_data (grid_driver stuck_grid) (pages stuck_grid, tr) = [''TX1'']"
  by (simp add: improved_extract_table_data_def stuck_grid_def tx_def grid_eval py_eval)

lemma stuck_main_loop:
  "page_count \<le> 99 \<Longrightarrow>
   main_loop (grid_driver stuck_grid) page_count acc (pages stuck_grid, tr)
     = Some (acc @ replicate (nat (100 - page_count)) ''TX1'', 100,
             pages stuck_grid, tr @ replicate (nat (99 - page_count)) NativeClick)"
proof (induction "nat (99 - page_count)" arbitrary: page_count acc tr)
  case 0
  then have "page_count = 99" by simp
  then show ?case
    by (subst main_loop.simps) (simp add: stuck_ids)
next
  case (Suc k)
  then have less: "page_count < 99" by simp
  from Suc.hyps(2) have k: "k = nat (99 - (page_count + 1))" by simp
  from less have le: "page_count + 1 \<le> 99" by simp
  have more: "nat (100 - page_count) = Suc (nat (100 - (page_count + 1)))"
    "nat (99 - page_count) = Suc (nat (99 - (page_count + 1)))"
    using less by simp_all
  have "main_loop (grid_driver stuck_grid) page_count acc (pages stuck_grid, tr)
          = main_loop (grid_driver stuck_grid) (page_count + 1) (acc @ [''TX1''])
              (pages stuck_grid, tr @ [NativeClick])"
    using less
    by (subst main_loop.simps) (simp add: stuck_has_next stuck_improved_advance stuck_ids)
  also have "\<dots> = Some ((acc @ [''TX1'']) @ replicate (nat (100 - (page_count + 1))) ''TX1'', 100,
                         pages stuck_grid,
                         (tr @ [NativeClick]) @ replicate (nat (99 - (page_count + 1))) NativeClick)"
    by (rule Suc.hyps(1)[OF k le])
  finally show ?case
    by (simp only: more replicate.simps append.simps append_assoc)
qed

text \<open>
  C8, as the code has it. The loop of \<open>main\<close> in \<open>scrape_transaction_ids.py\<close> has a
  ceiling of its own: it always returns, after at most 100 pages (or one page, when it
  is entered at a higher count), whatever the pagination state and the advance
  report. \<open>CinetPayScraper.scrape_all_pages\<close> has no ceiling: it is bounded by
  \<open>max_pages\<close> alone, and returns whenever \<open>max_pages\<close> is a number other than
  \<open>0\<close>.
\<close>

theorem page_loops_return:
  "(\<exists>out n s'. main_loop drv page_count acc s = Some (out, n, s')
       \<and> n \<le> max 100 (page_count + 1))
   \<and> (max_pages = Some m \<and> m \<noteq> 0 \<longrightarrow>
        (\<exists>r. scrape_all_pages jl drv max_pages s = Some r))"
  using main_loop_returns[of drv page_count acc s]
        scrape_all_pages_loop_returns[of m jl drv 0 "[]" s]
  by (auto simp: scrape_all_pages_def)

text \<open>
  On a page whose "next" control is never disabled and on which every click works:
  the loop of \<open>main\<close> returns with a page count of at most 100 (it is 100, with the
  identifier read 100 times, after 99 clicks), and \<open>scrape_all_pages\<close> with
  \<open>max_pages = 2\<close> returns, after two pages.
\<close>

theorem page_loops_return_witness:
  "(\<exists>out n s'. main_loop (grid_driver stuck_grid) 0 [] (start stuck_grid) = Some (out, n, s')
       \<and> n \<le> 100)
   \<and> (\<exists>r. scrape_all_pages no_json (grid_driver stuck_grid) (Some 2) (start stuck_grid) = Some r)
   \<and> scrape_all_pages no_json (grid_driver stuck_grid) (Some 2) (start stuck_grid)
       = Some ([record_of ''TX1'', record_of ''TX1''],
               pages stuck_grid, [NativeClick, NativeClick])
   \<and> main_loop (grid_driver stuck_grid) 0 [] (start stuck_grid)
       = Some (replicate 100 ''TX1'', 100, pages stuck_grid, replicate 99 NativeClick)"
proof -
  let ?drv = "grid_driver stuck_grid"
  have hundred: "main_loop ?drv 0 [] (start stuck_grid)
                   = Some (replicate 100 ''TX1'', 100, pages stuck_grid, replicate 99 NativeClick)"
    using stuck_main_loop[of 0 "[]" "[]"] by (simp add: start_def)
  have "scrape_all_pages_loop no_json ?drv (Some 2) 0 [] (pages stuck_grid, [])
          = scrape_all_pages_loop no_json ?drv (Some 2) 1 [record_of ''TX1'']
              (pages stuck_grid, [NativeClick])"
    by (subst scrape_all_pages_loop.simps)
       (simp add: over_limit_def stuck_has_next stuck_advance stuck_records)
  also have "\<dots> = scrape_all_pages_loop no_json ?drv (Some 2) 2
                      [record_of ''TX1'', record_of ''TX1'']
                      (pages stuck_grid, [NativeClick, NativeClick])"
    by (subst scrape_all_pages_loop.simps)
       (simp add: over_limit_def stuck_has_next stuck_advance stuck_records)
  also have "\<dots> = Some ([record_of ''TX1'', record_of ''TX1''],
                         pages stuck_grid, [NativeClick, NativeClick])"
    by (subst scrape_all_pages_loop.simps) (simp add: over_limit_def)
  finally have run: "scrape_all_pages no_json ?drv (Some 2) (start stuck_grid)
                       = Some ([record_of ''TX1'', record_of ''TX1''],
                               pages stuck_grid, [NativeClick, NativeClick])"
    by (simp add: scrape_all_pages_def start_def)
  from page_loops_return
         [where drv = ?drv and page_count = 0 and acc = "[]" and s = "start stuck_grid"
            and max_pages = "Some 2" and m = 2 and jl = no_json]
       run hundred
  show ?thesis by simp
qed

text \<open>
  C8 as stated fails for \<open>CinetPayScraper.scrape_all_pages\<close>: called without
  \<open>max_pages\<close> on a page whose "next" control is never disabled and on which every
  click works, the loop never returns.
\<close>

theorem unbounded_loop_counterexample:
  "scrape_all_pages no_json (grid_driver stuck_grid) None (start stuck_grid) = None"
proof (cases "scrape_all_pages no_json (grid_driver stuck_grid) None (start stuck_grid)")
  case None
  then show ?thesis .
next
  case (Some y)
  then have "scrape_all_pages_loop no_json (grid_driver stuck_grid) None 0 []
               (start stuck_grid) = Some y"
    by (simp add: scrape_all_pages_def)
  from stuck_never[OF this] show ?thesis by (simp add: start_def)
qed

section \<open>The run over the countries\<close>









end
